theory Spec2Isabelle
  imports Complex_Main
begin

section \<open>The raster DEM tile worker source\<close>














section \<open>Icon quads\<close>

subsection \<open>JavaScript numbers\<close>

text \<open>
  A JavaScript number is a finite value, one of the two infinities or \<^verbatim>\<open>NaN\<close>. The finite
  values are taken as reals: rounding, overflow and the sign of zero are left out. The
  operations follow IEEE 754 on the special values, so that a division by zero is an infinity
  (or \<^verbatim>\<open>NaN\<close>) as in the program and not HOL's \<open>0\<close>.
\<close>

datatype number = Fin real | PosInf | NegInf | NaN

instantiation number :: "{uminus, plus, minus, times, inverse}"
begin

fun uminus_number :: "number \<Rightarrow> number" where
  "uminus_number (Fin a) = Fin (- a)"
| "uminus_number PosInf = NegInf"
| "uminus_number NegInf = PosInf"
| "uminus_number NaN = NaN"

fun plus_number :: "number \<Rightarrow> number \<Rightarrow> number" where
  "plus_number NaN b = NaN"
| "plus_number a NaN = NaN"
| "plus_number (Fin a) (Fin b) = Fin (a + b)"
| "plus_number PosInf NegInf = NaN"
| "plus_number NegInf PosInf = NaN"
| "plus_number PosInf b = PosInf"
| "plus_number NegInf b = NegInf"
| "plus_number (Fin a) b = b"

definition minus_number :: "number \<Rightarrow> number \<Rightarrow> number" where
  "minus_number a b = a + (- b)"

fun times_number :: "number \<Rightarrow> number \<Rightarrow> number" where
  "times_number NaN b = NaN"
| "times_number a NaN = NaN"
| "times_number (Fin a) (Fin b) = Fin (a * b)"
| "times_number (Fin a) PosInf = (if a = 0 then NaN else if 0 < a then PosInf else NegInf)"
| "times_number (Fin a) NegInf = (if a = 0 then NaN else if 0 < a then NegInf else PosInf)"
| "times_number PosInf (Fin b) = (if b = 0 then NaN else if 0 < b then PosInf else NegInf)"
| "times_number NegInf (Fin b) = (if b = 0 then NaN else if 0 < b then NegInf else PosInf)"
| "times_number PosInf PosInf = PosInf"
| "times_number PosInf NegInf = NegInf"
| "times_number NegInf PosInf = NegInf"
| "times_number NegInf NegInf = PosInf"

fun divide_number :: "number \<Rightarrow> number \<Rightarrow> number" where
  "divide_number NaN b = NaN"
| "divide_number a NaN = NaN"
| "divide_number (Fin a) (Fin b) =
     (if b = 0 then (if a = 0 then NaN else if 0 < a then PosInf else NegInf)
      else Fin (a / b))"
| "divide_number (Fin a) b = Fin 0"
| "divide_number PosInf (Fin b) = (if 0 \<le> b then PosInf else NegInf)"
| "divide_number NegInf (Fin b) = (if 0 \<le> b then NegInf else PosInf)"
| "divide_number a b = NaN"

definition inverse_number :: "number \<Rightarrow> number" where
  "inverse_number a = divide (Fin 1) a"

instance ..

end

text \<open>\<^verbatim>\<open>Math.sin\<close>, \<^verbatim>\<open>Math.cos\<close>, \<^verbatim>\<open>Math.PI\<close>, and the truth value of a number in a
  condition: zero and \<^verbatim>\<open>NaN\<close> are falsy.\<close>

fun Math_sin :: "number \<Rightarrow> number" where
  "Math_sin (Fin a) = Fin (sin a)"
| "Math_sin a = NaN"

fun Math_cos :: "number \<Rightarrow> number" where
  "Math_cos (Fin a) = Fin (cos a)"
| "Math_cos a = NaN"

definition Math_PI :: number where
  "Math_PI = Fin pi"

fun truthy :: "number \<Rightarrow> bool" where
  "truthy (Fin a) = (a \<noteq> 0)"
| "truthy NaN = False"
| "truthy a = True"

text \<open>\<^verbatim>\<open>xs[i]\<close> in arithmetic: an index out of range reads \<^verbatim>\<open>undefined\<close>, which
  arithmetic turns into \<^verbatim>\<open>NaN\<close>.\<close>

definition at_index :: "number list \<Rightarrow> nat \<Rightarrow> number" where
  "at_index xs i = (if i < length xs then xs ! i else NaN)"

subsection \<open>The data of \<^verbatim>\<open>quads.js\<close>\<close>

text \<open>
  \<^verbatim>\<open>Point\<close> is the class of the package \<^verbatim>\<open>@mapbox/point-geometry\<close>; \<^verbatim>\<open>_matMult\<close>
  multiplies the point by the 2x2 matrix \<^verbatim>\<open>[m0, m1, m2, m3]\<close> in place. Field names carry
  a prefix where two records of the program share them.
\<close>

record Point =
  point_x :: number
  point_y :: number

definition matMult :: "Point \<Rightarrow> number list \<Rightarrow> Point" where
  "matMult p m =
     \<lparr>point_x = at_index m 0 * point_x p + at_index m 1 * point_y p,
      point_y = at_index m 2 * point_x p + at_index m 3 * point_y p\<rparr>"

record TextureRect =
  rect_x :: number
  rect_y :: number
  rect_w :: number
  rect_h :: number

record SymbolQuad =
  tl :: Point
  tr :: Point
  bl :: Point
  br :: Point
  tex :: TextureRect
  writingMode :: "number option"
  glyphOffset :: "number \<times> number"

record Image =
  pixelRatio :: number
  textureRect :: TextureRect

record PositionedIcon =
  image :: Image
  icon_top :: number
  icon_bottom :: number
  icon_left :: number
  icon_right :: number

record Shaping =
  text_top :: number
  text_bottom :: number
  text_left :: number
  text_right :: number

text \<open>The layout properties \<^verbatim>\<open>getIconQuads\<close> reads, and the layer: its layout and its method
  \<^verbatim>\<open>getLayoutValue(name, globalProperties, feature)\<close>, which belongs to another module.\<close>

record Layout =
  icon_text_fit :: string
  text_size :: number
  icon_text_fit_padding :: "number list"

record ('g, 'f) StyleLayer =
  layout :: Layout
  getLayoutValue :: "string \<Rightarrow> 'g \<Rightarrow> 'f \<Rightarrow> number"

definition getIconQuads ::
  "'anchor \<Rightarrow> PositionedIcon \<Rightarrow> ('g, 'f) StyleLayer \<Rightarrow> bool \<Rightarrow> Shaping option \<Rightarrow>
   'g \<Rightarrow> 'f \<Rightarrow> SymbolQuad list" where
  "getIconQuads anchor shapedIcon layer alongLine shapedText globalProperties feature =
    (let img = image shapedIcon;
         lay = layout layer;
         border = Fin 1;
         top = icon_top shapedIcon - border / pixelRatio img;
         left = icon_left shapedIcon - border / pixelRatio img;
         bottom = icon_bottom shapedIcon + border / pixelRatio img;
         right = icon_right shapedIcon + border / pixelRatio img;
         (tl0, tr0, br0, bl0) =
           (if icon_text_fit lay \<noteq> ''none'' \<and> shapedText \<noteq> None then
              (let st = the shapedText;
                   iconWidth = right - left;
                   iconHeight = bottom - top;
                   size = text_size lay / Fin 24;
                   textLeft = text_left st * size;
                   textRight = text_right st * size;
                   textTop = text_top st * size;
                   textBottom = text_bottom st * size;
                   textWidth = textRight - textLeft;
                   textHeight = textBottom - textTop;
                   padT = at_index (icon_text_fit_padding lay) 0;
                   padR = at_index (icon_text_fit_padding lay) 1;
                   padB = at_index (icon_text_fit_padding lay) 2;
                   padL = at_index (icon_text_fit_padding lay) 3;
                   offsetY = (if icon_text_fit lay = ''width''
                              then (textHeight - iconHeight) * Fin 0.5 else Fin 0);
                   offsetX = (if icon_text_fit lay = ''height''
                              then (textWidth - iconWidth) * Fin 0.5 else Fin 0);
                   width = (if icon_text_fit lay = ''width'' \<or> icon_text_fit lay = ''both''
                            then textWidth else iconWidth);
                   height = (if icon_text_fit lay = ''height'' \<or> icon_text_fit lay = ''both''
                             then textHeight else iconHeight)
               in (\<lparr>point_x = textLeft + offsetX - padL, point_y = textTop + offsetY - padT\<rparr>,
                   \<lparr>point_x = textLeft + offsetX + padR + width,
                    point_y = textTop + offsetY - padT\<rparr>,
                   \<lparr>point_x = textLeft + offsetX + padR + width,
                    point_y = textTop + offsetY + padB + height\<rparr>,
                   \<lparr>point_x = textLeft + offsetX - padL,
                    point_y = textTop + offsetY + padB + height\<rparr>))
            else
              (\<lparr>point_x = left, point_y = top\<rparr>,
               \<lparr>point_x = right, point_y = top\<rparr>,
               \<lparr>point_x = right, point_y = bottom\<rparr>,
               \<lparr>point_x = left, point_y = bottom\<rparr>));
         angle = getLayoutValue layer ''icon-rotate'' globalProperties feature
                   * Math_PI / Fin 180;
         (tl1, tr1, bl1, br1) =
           (if truthy angle then
              (let sin = Math_sin angle;
                   cos = Math_cos angle;
                   matrix = [cos, - sin, sin, cos]
               in (matMult tl0 matrix, matMult tr0 matrix,
                   matMult bl0 matrix, matMult br0 matrix))
            else (tl0, tr0, bl0, br0));
         textureRect' =
           \<lparr>rect_x = rect_x (textureRect img) - border,
            rect_y = rect_y (textureRect img) - border,
            rect_w = rect_w (textureRect img) + border * Fin 2,
            rect_h = rect_h (textureRect img) + border * Fin 2\<rparr>
     in [\<lparr>tl = tl1, tr = tr1, bl = bl1, br = br1, tex = textureRect',
          writingMode = None, glyphOffset = (Fin 0, Fin 0)\<rparr>])"

text \<open>An icon, a layer and a shaped text to evaluate \<^verbatim>\<open>getIconQuads\<close> on.\<close>

definition demo_icon :: PositionedIcon where
  "demo_icon =
    \<lparr>image = \<lparr>pixelRatio = Fin 2,
               textureRect = \<lparr>rect_x = Fin 10, rect_y = Fin 20, rect_w = Fin 16, rect_h = Fin 8\<rparr>\<rparr>,
     icon_top = Fin (- 4), icon_bottom = Fin 4, icon_left = Fin (- 8), icon_right = Fin 8\<rparr>"

definition demo_layer :: "(unit, unit) StyleLayer" where
  "demo_layer =
    \<lparr>layout = \<lparr>icon_text_fit = ''none'', text_size = Fin 16,
                icon_text_fit_padding = [Fin 0, Fin 0, Fin 0, Fin 0]\<rparr>,
     getLayoutValue = (\<lambda>name g f. Fin 0)\<rparr>"

section \<open>The expression language\<close>

text \<open>
  \<^verbatim>\<open>compile.js\<close> is the facade of the expression compiler. The modules it imports
  (\<^verbatim>\<open>types\<close>, \<^verbatim>\<open>expression\<close>, \<^verbatim>\<open>parse_expression\<close>, \<^verbatim>\<open>definitions\<close>,
  \<^verbatim>\<open>evaluation_context\<close>, \<^verbatim>\<open>is_constant\<close>) are specified but their code is not part of
  what is verified here. Their types are modelled in this section from the data model of the
  specification; their functions are parameters of the facade, and are modelled from the
  specification further below.
\<close>

subsection \<open>Types and values\<close>

text \<open>Modelled from the spec: the \<^verbatim>\<open>Type\<close> of module \<^verbatim>\<open>types\<close>, a tagged variant
  \<^verbatim>\<open>Null | Boolean | Number | String | Color | Object | Array(itemType, length?) | Value | Error\<close>.\<close>

datatype Type =
    NullType | BooleanType | NumberType | StringType | ColorType | ObjectType
  | ArrayType Type "nat option"
  | ValueType
  | ErrorType

text \<open>Modelled from the spec: the run-time data, "an explicit \<^verbatim>\<open>Value\<close> sum type"; these are
  the JSON-compatible values, which are also the literals of the input.\<close>

datatype Value =
    NullValue
  | BooleanValue bool
  | NumberValue number
  | StringValue string
  | ArrayValue "Value list"
  | ObjectValue "(string \<times> Value) list"

text \<open>Modelled from the spec: \<^verbatim>\<open>Location\<close>, an "ordered sequence of indices/keys describing
  [a node's] position in the original nested input".\<close>

datatype Step = Index nat | Key string

type_synonym Location = "Step list"

text \<open>Modelled from the spec: \<^verbatim>\<open>ParsingError\<close>, \<^verbatim>\<open>{message, location}\<close>. The message is kept
  as data, one constructor for each kind of diagnostic the specification lists, carrying what
  the message cites: the operator, the accepted arities (least and greatest number of
  arguments of each overload, no greatest number for a variadic one) and the number given, or
  the expected and the actual type.\<close>

datatype Message =
    UnknownOperator string
  | ArityMismatch string "(nat \<times> nat option) list" nat
  | TypeMismatch Type Type
  | ExpectedExpression
  | UnboundName string

datatype ParsingError = ParsingError Message Location

text \<open>Modelled from the spec: the \<^verbatim>\<open>Expression\<close> node of module \<^verbatim>\<open>expression\<close>:
  \<^verbatim>\<open>Literal(value)\<close>, \<^verbatim>\<open>VariableReference(name)\<close>, \<^verbatim>\<open>Call(operatorName, args)\<close>,
  \<^verbatim>\<open>Binding(name, valueExpr, bodyExpr)\<close>, each with its resolved type and its location, and
  the poison node, of type \<^verbatim>\<open>Error\<close>, that stands where parsing failed.\<close>

datatype Expression =
    LiteralNode Type Location Value
  | VariableReferenceNode Type Location string
  | CallNode Type Location string "Expression list"
  | BindingNode Type Location string Expression Expression
  | PoisonNode Location

text \<open>Modelled from the spec: the fields of a node of module \<^verbatim>\<open>expression\<close>: "each node
  owns a resolved concrete Type once parsing succeeds, and a source Location".\<close>

fun typeOfNode :: "Expression \<Rightarrow> Type" where
  "typeOfNode (LiteralNode t l v) = t"
| "typeOfNode (VariableReferenceNode t l n) = t"
| "typeOfNode (CallNode t l f args) = t"
| "typeOfNode (BindingNode t l n v b) = t"
| "typeOfNode (PoisonNode l) = ErrorType"

fun locationOfNode :: "Expression \<Rightarrow> Location" where
  "locationOfNode (LiteralNode t l v) = l"
| "locationOfNode (VariableReferenceNode t l n) = l"
| "locationOfNode (CallNode t l f args) = l"
| "locationOfNode (BindingNode t l n v b) = l"
| "locationOfNode (PoisonNode l) = l"

text \<open>Modelled from the spec: \<^verbatim>\<open>Signature\<close>, \<^verbatim>\<open>{paramTypes, returnType}\<close> where the
  parameter types "may include a variadic tail", and \<^verbatim>\<open>Definition\<close>,
  \<^verbatim>\<open>{name, overloads}\<close>. The registry of module \<^verbatim>\<open>definitions\<close> is the list of the
  definitions.\<close>

record Signature =
  paramTypes :: "Type list"
  variadicTail :: "Type option"
  returnType :: Type

record Definition =
  name :: string
  overloads :: "Signature list"

type_synonym Registry = "Definition list"

text \<open>Modelled from the spec: \<^verbatim>\<open>RuntimeContext\<close>, a "read-only view exposing zoom (number),
  feature property lookup (name to optional Value), geometry type, and feature-state lookup",
  and \<^verbatim>\<open>EvalError\<close>, "a human-readable message and the same Location used at parse time".\<close>

record RuntimeContext =
  zoom :: number
  featureProperty :: "string \<Rightarrow> Value option"
  geometryType :: string
  featureState :: "string \<Rightarrow> Value option"

datatype EvalError = EvalError string Location

fun locationOfError :: "EvalError \<Rightarrow> Location" where
  "locationOfError (EvalError m l) = l"

text \<open>Modelled from the spec: the evaluator of a compiled expression,
  \<^verbatim>\<open>evaluate: (RuntimeContext) -> Result<Value, EvalError>\<close>.\<close>

type_synonym Evaluator = "RuntimeContext \<Rightarrow> EvalError + Value"

text \<open>Modelled from the spec: \<^verbatim>\<open>ParsingContext\<close> of module \<^verbatim>\<open>expression\<close>. The facade
  constructs it from the registry, an empty array and the expected type, and reads its
  \<^verbatim>\<open>errors\<close>; by the specification it "owns no state [...] other than error accumulation and
  lexical scope", the scope a "lexical stack of name to Type bindings, innermost first".\<close>

record ParsingContext =
  definitions :: Registry
  path :: Location
  expectedType :: "Type option"
  scope :: "(string \<times> Type) list"
  errors :: "ParsingError list"

definition new_ParsingContext :: "Registry \<Rightarrow> Location \<Rightarrow> Type option \<Rightarrow> ParsingContext" where
  "new_ParsingContext defs p expected =
     \<lparr>definitions = defs, path = p, expectedType = expected, scope = [], errors = []\<rparr>"

subsection \<open>The facade \<^verbatim>\<open>compileExpression\<close>\<close>

text \<open>
  The functions \<^verbatim>\<open>compile.js\<close> imports, as parameters. \<^verbatim>\<open>parseExpression\<close> returns the
  parsed expression or a falsy value (\<open>None\<close>) and updates the context it is given, the
  registry the context refers to included; \<^verbatim>\<open>compileToFunction\<close> is a method of the
  compilation context and may update it before \<^verbatim>\<open>getPrelude\<close> reads it.
\<close>

record ('i, 'cc, 'ec) Modules =
  parseExpression :: "'i \<Rightarrow> ParsingContext \<Rightarrow> Expression option \<times> ParsingContext"
  new_CompilationContext :: 'cc
  evaluationContext :: 'ec
  compileToFunction :: "'cc \<Rightarrow> Expression \<Rightarrow> 'ec \<Rightarrow> Evaluator \<times> 'cc"
  getPrelude :: "'cc \<Rightarrow> string"
  isFeatureConstant :: "Expression \<Rightarrow> bool"
  isZoomConstant :: "Expression \<Rightarrow> bool"

text \<open>The object the facade returns is an object literal: its keys in the order written, each
  with its value.\<close>

datatype Field =
    Str string
  | Bool bool
  | Errors "ParsingError list"
  | Function Evaluator
  | Expr Expression

type_synonym Object = "(string \<times> Field) list"

datatype AssertionError = AssertionError

text \<open>
  \<^verbatim>\<open>compileExpression(expr, expectedType)\<close>. An absent \<^verbatim>\<open>expectedType\<close> is \<open>None\<close>, and
  \<^verbatim>\<open>expectedType || null\<close> leaves a type as it is. The result is the object returned, or
  the error thrown by \<^verbatim>\<open>assert\<close>, and the registry as the call leaves it (the registry is
  a module-level object shared by all calls).
\<close>

definition compileExpression ::
  "('i, 'cc, 'ec) Modules \<Rightarrow> Registry \<Rightarrow> 'i \<Rightarrow> Type option \<Rightarrow>
   (AssertionError + Object) \<times> Registry" where
  "compileExpression M defs expr expected =
    (let context = new_ParsingContext defs [] expected;
         (parsed, context') = parseExpression M expr context
     in case parsed of
          None \<Rightarrow>
            (if length (errors context') > 0
             then Inr [(''result'', Str ''error''),
                       (''errors'', Errors (errors context'))]
             else Inl AssertionError,
             definitions context')
        | Some p \<Rightarrow>
            (let compilationContext = new_CompilationContext M;
                 (compiled, compilationContext') =
                    compileToFunction M compilationContext p (evaluationContext M)
             in (Inr [(''result'', Str ''success''),
                      (''function'', Function compiled),
                      (''functionSource'', Str (getPrelude M compilationContext')),
                      (''isFeatureConstant'', Bool (isFeatureConstant M p)),
                      (''isZoomConstant'', Bool (isZoomConstant M p)),
                      (''expression'', Expr p)],
                 definitions context')))"

text \<open>\<^verbatim>\<open>obj[key]\<close> and \<^verbatim>\<open>key in obj\<close>.\<close>

definition field :: "Object \<Rightarrow> string \<Rightarrow> Field option" where
  "field obj k = map_of obj k"

definition hasField :: "Object \<Rightarrow> string \<Rightarrow> bool" where
  "hasField obj k = (k \<in> set (map fst obj))"

text \<open>The two variants of the result, as the type of \<^verbatim>\<open>compile.js\<close> declares them:
  \<^verbatim>\<open>CompileErrors\<close> has exactly the keys \<^verbatim>\<open>result\<close> and \<^verbatim>\<open>errors\<close>,
  \<^verbatim>\<open>CompiledExpression\<close> exactly the six keys of a success.\<close>

fun isStr :: "Field option \<Rightarrow> bool" where
  "isStr (Some (Str s)) = True"
| "isStr v = False"

fun isBool :: "Field option \<Rightarrow> bool" where
  "isBool (Some (Bool b)) = True"
| "isBool v = False"

fun isErrors :: "Field option \<Rightarrow> bool" where
  "isErrors (Some (Errors es)) = True"
| "isErrors v = False"

fun isFunction :: "Field option \<Rightarrow> bool" where
  "isFunction (Some (Function f)) = True"
| "isFunction v = False"

fun isExpr :: "Field option \<Rightarrow> bool" where
  "isExpr (Some (Expr e)) = True"
| "isExpr v = False"

definition isCompileErrors :: "Object \<Rightarrow> bool" where
  "isCompileErrors obj =
     (map fst obj = [''result'', ''errors'']
      \<and> field obj ''result'' = Some (Str ''error'')
      \<and> isErrors (field obj ''errors''))"

definition isCompiledExpression :: "Object \<Rightarrow> bool" where
  "isCompiledExpression obj =
     (map fst obj = [''result'', ''function'', ''functionSource'', ''isFeatureConstant'',
                     ''isZoomConstant'', ''expression'']
      \<and> field obj ''result'' = Some (Str ''success'')
      \<and> isFunction (field obj ''function'')
      \<and> isStr (field obj ''functionSource'')
      \<and> isBool (field obj ''isFeatureConstant'')
      \<and> isBool (field obj ''isZoomConstant'')
      \<and> isExpr (field obj ''expression''))"


section \<open>The modules behind the facade, from their specification\<close>

subsection \<open>Type system\<close>

text \<open>Modelled from the spec: \<^verbatim>\<open>typeOf(value)\<close> of module \<^verbatim>\<open>types\<close>, the type of a
  literal. The specification fixes no item type for an array literal; it is taken
  unconstrained, with the literal's length.\<close>

fun typeOf :: "Value \<Rightarrow> Type" where
  "typeOf NullValue = NullType"
| "typeOf (BooleanValue b) = BooleanType"
| "typeOf (NumberValue n) = NumberType"
| "typeOf (StringValue s) = StringType"
| "typeOf (ArrayValue xs) = ArrayType ValueType (Some (length xs))"
| "typeOf (ObjectValue kvs) = ObjectType"

text \<open>Modelled from the spec: \<^verbatim>\<open>isCompatible(actual, expected)\<close> and
  \<^verbatim>\<open>arrayCompatible\<close> of module \<^verbatim>\<open>types\<close>: "reflexive, Error and Value absorbing",
  \<^verbatim>\<open>Error\<close> "compatible with every type", \<^verbatim>\<open>Value\<close> accepting anything, arrays "comparing
  item type and, if both declare a fixed length, comparing lengths", and no coercion
  otherwise.\<close>

fun lengthCompatible :: "nat option \<Rightarrow> nat option \<Rightarrow> bool" where
  "lengthCompatible (Some n) (Some m) = (n = m)"
| "lengthCompatible n m = True"

fun isCompatible :: "Type \<Rightarrow> Type \<Rightarrow> bool" where
  "isCompatible ErrorType expected = True"
| "isCompatible actual ErrorType = True"
| "isCompatible actual ValueType = True"
| "isCompatible (ArrayType a n) (ArrayType b m) = (isCompatible a b \<and> lengthCompatible n m)"
| "isCompatible actual expected = (actual = expected)"

subsection \<open>Definitions registry and overload resolution\<close>

text \<open>Modelled from the spec: lookup by name in the registry of module \<^verbatim>\<open>definitions\<close>
  ("missing name: unknown operator").\<close>

definition lookupDefinition :: "Registry \<Rightarrow> string \<Rightarrow> Definition option" where
  "lookupDefinition defs n = find (\<lambda>d. name d = n) defs"

text \<open>Modelled from the spec: when a signature of module \<^verbatim>\<open>definitions\<close> matches. It
  matches a number of arguments when it has as many parameters, or no more when it has a
  variadic tail, which "matches zero or more trailing arguments of the tail's declared type";
  it matches the arguments when it matches their number and every argument's type is compatible
  with the type expected at its position.\<close>

definition arityMatches :: "Signature \<Rightarrow> nat \<Rightarrow> bool" where
  "arityMatches sg n =
     (case variadicTail sg of
        None \<Rightarrow> n = length (paramTypes sg)
      | Some t \<Rightarrow> length (paramTypes sg) \<le> n)"

definition expectedTypes :: "Signature \<Rightarrow> nat \<Rightarrow> Type list" where
  "expectedTypes sg n =
     (case variadicTail sg of
        None \<Rightarrow> paramTypes sg
      | Some t \<Rightarrow> paramTypes sg @ replicate (n - length (paramTypes sg)) t)"

definition signatureMatches :: "Signature \<Rightarrow> Type list \<Rightarrow> bool" where
  "signatureMatches sg actuals =
     (arityMatches sg (length actuals)
      \<and> list_all2 isCompatible actuals (expectedTypes sg (length actuals)))"

definition arityRange :: "Signature \<Rightarrow> nat \<times> nat option" where
  "arityRange sg =
     (length (paramTypes sg),
      case variadicTail sg of None \<Rightarrow> Some (length (paramTypes sg)) | Some t \<Rightarrow> None)"

datatype ResolutionFailure =
    NoMatchingArity
  | IncompatibleArgument Type Type Location

text \<open>Modelled from the spec: the argument a type mismatch cites, for module
  \<^verbatim>\<open>definitions\<close>: the first argument whose type is not compatible with the type expected
  at its position, as the expected type, the actual type and the argument's location.\<close>

fun firstMismatch :: "(Type \<times> Location) list \<Rightarrow> Type list \<Rightarrow> (Type \<times> Type \<times> Location) option" where
  "firstMismatch ((actual, l) # args) (expected # es) =
     (if isCompatible actual expected then firstMismatch args es
      else Some (expected, actual, l))"
| "firstMismatch args es = None"

text \<open>Modelled from the spec: overload resolution of module \<^verbatim>\<open>definitions\<close>, on the types
  and locations of the parsed arguments: "select the first listed signature whose parameter
  types are all compatible; first-match (declaration order) wins ties. No match found
  distinguishes two error kinds: no signature has a matching arity; some signature matches
  arity but argument types are incompatible." The specification does not say which signature a
  type mismatch is reported against; it is the first of matching arity.\<close>

definition resolveOverload ::
  "Signature list \<Rightarrow> (Type \<times> Location) list \<Rightarrow> ResolutionFailure + Signature" where
  "resolveOverload sigs args =
     (case find (\<lambda>sg. signatureMatches sg (map fst args)) sigs of
        Some sg \<Rightarrow> Inr sg
      | None \<Rightarrow>
         (case find (\<lambda>sg. arityMatches sg (length args)) sigs of
            None \<Rightarrow> Inl NoMatchingArity
          | Some sg \<Rightarrow>
             (case firstMismatch args (expectedTypes sg (length args)) of
                Some (expected, actual, l) \<Rightarrow> Inl (IncompatibleArgument expected actual l)
              | None \<Rightarrow> Inr sg)))"

subsection \<open>Parser\<close>

text \<open>
  Modelled from the spec: the input grammar, by the cases the parser dispatches on: a literal
  JSON scalar, the explicit literal-escape form around a value, a bare name, the array form
  \<^verbatim>\<open>[operatorName, ...args]\<close>, a let-like form that binds a name to a value in a body, and
  anything else. The specification names no concrete syntax for the escape form and the
  let-like forms; they are constructors here.
\<close>

datatype Scalar = NullScalar | BooleanScalar bool | NumberScalar number | StringScalar string

fun valueOfScalar :: "Scalar \<Rightarrow> Value" where
  "valueOfScalar NullScalar = NullValue"
| "valueOfScalar (BooleanScalar b) = BooleanValue b"
| "valueOfScalar (NumberScalar n) = NumberValue n"
| "valueOfScalar (StringScalar s) = StringValue s"

datatype Input =
    ScalarInput Scalar
  | EscapeInput Value
  | NameInput string
  | FormInput string "Input list"
  | LetInput string Input Input
  | OtherInput

text \<open>Modelled from the spec: the literal expressions of the input grammar, "literal JSON
  scalar / explicit literal-escape form", with the value they denote.\<close>

fun literalValue :: "Input \<Rightarrow> Value option" where
  "literalValue (ScalarInput s) = Some (valueOfScalar s)"
| "literalValue (EscapeInput v) = Some v"
| "literalValue input = None"

text \<open>Modelled from the spec: after a subtree is parsed, "if \<^verbatim>\<open>expectedType\<close> was supplied and
  the resolved type is incompatible, append a type error citing both types and continue using
  the resolved (not expected) type".\<close>

definition checkExpected ::
  "Type option \<Rightarrow> Expression \<times> ParsingError list \<Rightarrow> Expression \<times> ParsingError list" where
  "checkExpected expected r =
     (case expected of
        None \<Rightarrow> r
      | Some t \<Rightarrow>
          (if isCompatible (typeOfNode (fst r)) t then r
           else (fst r, snd r @ [ParsingError (TypeMismatch t (typeOfNode (fst r)))
                                   (locationOfNode (fst r))])))"

text \<open>
  Modelled from the spec: \<^verbatim>\<open>parse(node, expectedType, scope)\<close> of the parser, "side-effecting
  the shared error list", which is passed in and returned here. The arguments of an array form
  are parsed bottom-up, left to right, at the positions after the operator name; the value and
  the body of a let-like form are taken at the positions after its operator and its name, and
  the body is parsed in the scope extended by the binding, which ends with the form. A failure
  appends its diagnostic and yields the poison node, "so parsing of sibling nodes continues".
\<close>

fun parse ::
    "Registry \<Rightarrow> (string \<times> Type) list \<Rightarrow> Location \<Rightarrow> Type option \<Rightarrow> Input \<Rightarrow>
     ParsingError list \<Rightarrow> Expression \<times> ParsingError list"
  and parseArgs ::
    "Registry \<Rightarrow> (string \<times> Type) list \<Rightarrow> Location \<Rightarrow> nat \<Rightarrow> Input list \<Rightarrow>
     ParsingError list \<Rightarrow> Expression list \<times> ParsingError list" where
  "parse defs sc loc expected (ScalarInput s) errs =
     checkExpected expected (LiteralNode (typeOf (valueOfScalar s)) loc (valueOfScalar s), errs)"
| "parse defs sc loc expected (EscapeInput v) errs =
     checkExpected expected (LiteralNode (typeOf v) loc v, errs)"
| "parse defs sc loc expected (NameInput n) errs =
     checkExpected expected
       (case map_of sc n of
          Some t \<Rightarrow> (VariableReferenceNode t loc n, errs)
        | None \<Rightarrow> (PoisonNode loc, errs @ [ParsingError (UnboundName n) loc]))"
| "parse defs sc loc expected (FormInput f args) errs =
     checkExpected expected
       (case lookupDefinition defs f of
          None \<Rightarrow> (PoisonNode loc, errs @ [ParsingError (UnknownOperator f) (loc @ [Index 0])])
        | Some d \<Rightarrow>
            (case parseArgs defs sc loc 1 args errs of
               (nodes, errs') \<Rightarrow>
                 (case resolveOverload (overloads d)
                         (map (\<lambda>a. (typeOfNode a, locationOfNode a)) nodes) of
                    Inr sg \<Rightarrow> (CallNode (returnType sg) loc f nodes, errs')
                  | Inl NoMatchingArity \<Rightarrow>
                      (PoisonNode loc,
                       errs' @ [ParsingError
                                  (ArityMismatch f (map arityRange (overloads d)) (length nodes))
                                  loc])
                  | Inl (IncompatibleArgument expected' actual l) \<Rightarrow>
                      (PoisonNode loc,
                       errs' @ [ParsingError (TypeMismatch expected' actual) l]))))"
| "parse defs sc loc expected (LetInput n v b) errs =
     checkExpected expected
       (case parse defs sc (loc @ [Index 2]) None v errs of
          (valueNode, errs') \<Rightarrow>
            (case parse defs ((n, typeOfNode valueNode) # sc) (loc @ [Index 3]) None b errs' of
               (bodyNode, errs'') \<Rightarrow>
                 (BindingNode (typeOfNode bodyNode) loc n valueNode bodyNode, errs'')))"
| "parse defs sc loc expected OtherInput errs =
     checkExpected expected (PoisonNode loc, errs @ [ParsingError ExpectedExpression loc])"
| "parseArgs defs sc loc i [] errs = ([], errs)"
| "parseArgs defs sc loc i (a # as) errs =
     (case parse defs sc (loc @ [Index i]) None a errs of
        (node, errs') \<Rightarrow>
          (case parseArgs defs sc loc (Suc i) as errs' of
             (nodes, errs'') \<Rightarrow> (node # nodes, errs'')))"

text \<open>Modelled from the spec: an expression of module \<^verbatim>\<open>expression\<close> in which no
  poison node stands.\<close>

fun poisonFree :: "Expression \<Rightarrow> bool" where
  "poisonFree (LiteralNode t l v) = True"
| "poisonFree (VariableReferenceNode t l n) = True"
| "poisonFree (CallNode t l f args) = list_all poisonFree args"
| "poisonFree (BindingNode t l n v b) = (poisonFree v \<and> poisonFree b)"
| "poisonFree (PoisonNode l) = False"

text \<open>
  Modelled from the spec: \<^verbatim>\<open>parseExpression\<close> of module \<^verbatim>\<open>parse_expression\<close>, the entry
  the facade calls: the parse of the input in the context's scope, at its path and against its
  expected type. "Success iff error list is empty": the expression is handed to the facade when
  no error was recorded, and otherwise the partially built expression is dropped.
\<close>

definition spec_parseExpression ::
  "Input \<Rightarrow> ParsingContext \<Rightarrow> Expression option \<times> ParsingContext" where
  "spec_parseExpression input context =
     (case parse (definitions context) (scope context) (path context) (expectedType context)
             input (errors context) of
        (node, errs) \<Rightarrow>
          (if errs = [] then Some node else None, context\<lparr>errors := errs\<rparr>))"


subsection \<open>Classifier\<close>

text \<open>
  Modelled from the spec: what module \<^verbatim>\<open>is_constant\<close> knows of the language: the name of the
  zoom variable, the operators "documented as zoom-dependent", and the accessors of feature
  properties, geometry type and feature state.
\<close>

record Classification =
  zoomVariable :: string
  zoomOperators :: "string list"
  featureAccessors :: "string list"

text \<open>Modelled from the spec: the structural recursion shared by the two classifiers. A
  reference to a variable counts unless a binding of the same name encloses it; \<open>bound\<close> holds
  the names bound around the subtree.\<close>

fun constantIn :: "(string \<Rightarrow> bool) \<Rightarrow> (string \<Rightarrow> bool) \<Rightarrow> string list \<Rightarrow> Expression \<Rightarrow> bool" where
  "constantIn V F bound (LiteralNode t l v) = True"
| "constantIn V F bound (VariableReferenceNode t l n) = (\<not> (V n \<and> n \<notin> set bound))"
| "constantIn V F bound (CallNode t l f args) =
     (\<not> F f \<and> list_all (constantIn V F bound) args)"
| "constantIn V F bound (BindingNode t l n v b) =
     (constantIn V F bound v \<and> constantIn V F (n # bound) b)"
| "constantIn V F bound (PoisonNode l) = True"

text \<open>Modelled from the spec: \<^verbatim>\<open>isZoomConstant\<close> and \<^verbatim>\<open>isFeatureConstant\<close> of module
  \<^verbatim>\<open>is_constant\<close>.\<close>

definition spec_isZoomConstant :: "Classification \<Rightarrow> Expression \<Rightarrow> bool" where
  "spec_isZoomConstant C e =
     constantIn (\<lambda>n. n = zoomVariable C) (\<lambda>f. f \<in> set (zoomOperators C)) [] e"

definition spec_isFeatureConstant :: "Classification \<Rightarrow> Expression \<Rightarrow> bool" where
  "spec_isFeatureConstant C e =
     constantIn (\<lambda>n. False) (\<lambda>f. f \<in> set (featureAccessors C)) [] e"

text \<open>Modelled from the spec: the "reachable subtree[s]" of an expression, for module
  \<^verbatim>\<open>is_constant\<close>, each with the names bound around it, and what it is for a subtree to
  refer to the data: to be a reference to the variable "not shadowed by a rebinding of the
  same name", or a call of one of the operators.\<close>

fun subtrees :: "string list \<Rightarrow> Expression \<Rightarrow> (string list \<times> Expression) list" where
  "subtrees bound (LiteralNode t l v) = [(bound, LiteralNode t l v)]"
| "subtrees bound (VariableReferenceNode t l n) = [(bound, VariableReferenceNode t l n)]"
| "subtrees bound (CallNode t l f args) =
     (bound, CallNode t l f args) # concat (map (subtrees bound) args)"
| "subtrees bound (BindingNode t l n v b) =
     (bound, BindingNode t l n v b) # subtrees bound v @ subtrees (n # bound) b"
| "subtrees bound (PoisonNode l) = [(bound, PoisonNode l)]"

fun refersTo :: "(string \<Rightarrow> bool) \<Rightarrow> (string \<Rightarrow> bool) \<Rightarrow> string list \<times> Expression \<Rightarrow> bool" where
  "refersTo V F (bound, VariableReferenceNode t l n) = (V n \<and> n \<notin> set bound)"
| "refersTo V F (bound, CallNode t l f args) = F f"
| "refersTo V F (bound, e) = False"

subsection \<open>Evaluator\<close>

text \<open>
  Modelled from the spec: what module \<^verbatim>\<open>evaluation_context\<close> provides, the evaluation rule
  of each operator, from the context and the values of the arguments to a value or, on a
  runtime anomaly, a message. (The catalogue of operators is outside the specification.)
\<close>

type_synonym Rules = "string \<Rightarrow> RuntimeContext \<Rightarrow> Value list \<Rightarrow> string + Value"

text \<open>Modelled from the spec: the evaluation of a node. A literal is its value; a reference
  is the value bound to the name; a call evaluates its arguments in order and applies the
  operator's rule, an anomaly becoming an \<^verbatim>\<open>EvalError\<close> at the node's location; a binding
  evaluates its value, then its body with the name bound. "Evaluation of a parent node
  short-circuits on the first child EvalError and forwards it upward unchanged."\<close>

fun evaluate :: "Rules \<Rightarrow> (string \<times> Value) list \<Rightarrow> Expression \<Rightarrow> RuntimeContext \<Rightarrow> EvalError + Value"
  and evaluateArgs ::
    "Rules \<Rightarrow> (string \<times> Value) list \<Rightarrow> Expression list \<Rightarrow> RuntimeContext \<Rightarrow> EvalError + Value list" where
  "evaluate R env (LiteralNode t l v) ctx = Inr v"
| "evaluate R env (VariableReferenceNode t l n) ctx =
     (case map_of env n of
        Some v \<Rightarrow> Inr v
      | None \<Rightarrow> Inl (EvalError (''Unbound variable '' @ n) l))"
| "evaluate R env (CallNode t l f args) ctx =
     (case evaluateArgs R env args ctx of
        Inl e \<Rightarrow> Inl e
      | Inr vs \<Rightarrow>
          (case R f ctx vs of
             Inl msg \<Rightarrow> Inl (EvalError msg l)
           | Inr v \<Rightarrow> Inr v))"
| "evaluate R env (BindingNode t l n v b) ctx =
     (case evaluate R env v ctx of
        Inl e \<Rightarrow> Inl e
      | Inr x \<Rightarrow> evaluate R ((n, x) # env) b ctx)"
| "evaluate R env (PoisonNode l) ctx = Inl (EvalError ''Not an expression'' l)"
| "evaluateArgs R env [] ctx = Inr []"
| "evaluateArgs R env (a # as) ctx =
     (case evaluate R env a ctx of
        Inl e \<Rightarrow> Inl e
      | Inr v \<Rightarrow>
          (case evaluateArgs R env as ctx of
             Inl e \<Rightarrow> Inl e
           | Inr vs \<Rightarrow> Inr (v # vs)))"

text \<open>Modelled from the spec: the locations of the nodes of an expression of module
  \<^verbatim>\<open>expression\<close>, recorded when it was parsed.\<close>

fun locations :: "Expression \<Rightarrow> Location list" where
  "locations (LiteralNode t l v) = [l]"
| "locations (VariableReferenceNode t l n) = [l]"
| "locations (CallNode t l f args) = l # concat (map locations args)"
| "locations (BindingNode t l n v b) = l # locations v @ locations b"
| "locations (PoisonNode l) = [l]"

text \<open>Modelled from the spec: \<^verbatim>\<open>CompilationContext\<close> of module \<^verbatim>\<open>expression\<close>. It holds
  the "shared, evaluator-independent support payload" that \<^verbatim>\<open>getPrelude\<close> returns;
  \<^verbatim>\<open>compileToFunction\<close> lowers the expression into its evaluator, over the rules of the
  evaluation context.\<close>

record CompilationContext =
  prelude :: string

definition spec_compileToFunction ::
  "CompilationContext \<Rightarrow> Expression \<Rightarrow> Rules \<Rightarrow> Evaluator \<times> CompilationContext" where
  "spec_compileToFunction cc e R = (evaluate R [] e, cc)"

text \<open>Modelled from the spec: the functions \<^verbatim>\<open>compile.js\<close> imports, together: the
  parser, the compilation context over a support payload, the operator rules as the evaluation
  context, and the two classifiers.\<close>

definition spec_Modules ::
  "Classification \<Rightarrow> Rules \<Rightarrow> string \<Rightarrow> (Input, CompilationContext, Rules) Modules" where
  "spec_Modules C R payload =
     \<lparr>parseExpression = spec_parseExpression,
      new_CompilationContext = \<lparr>prelude = payload\<rparr>,
      evaluationContext = R,
      compileToFunction = spec_compileToFunction,
      getPrelude = prelude,
      isFeatureConstant = spec_isFeatureConstant C,
      isZoomConstant = spec_isZoomConstant C\<rparr>"

subsection \<open>A small catalogue\<close>

text \<open>The operators of the specification's scenarios: addition of two numbers, the lookup of a
  feature property, and the zoom.\<close>

definition demo_registry :: Registry where
  "demo_registry =
     [\<lparr>name = ''+'', overloads =
         [\<lparr>paramTypes = [NumberType, NumberType], variadicTail = None, returnType = NumberType\<rparr>]\<rparr>,
      \<lparr>name = ''get'', overloads =
         [\<lparr>paramTypes = [StringType], variadicTail = None, returnType = ValueType\<rparr>]\<rparr>,
      \<lparr>name = ''zoom'', overloads =
         [\<lparr>paramTypes = [], variadicTail = None, returnType = NumberType\<rparr>]\<rparr>]"

fun demo_rules :: Rules where
  "demo_rules f ctx [NumberValue a, NumberValue b] =
     (if f = ''+'' then Inr (NumberValue (a + b)) else Inl ''Unexpected arguments'')"
| "demo_rules f ctx [StringValue k] =
     (if f = ''get'' then
        (case featureProperty ctx k of
           Some v \<Rightarrow> Inr v
         | None \<Rightarrow> Inl (''Property '' @ k @ '' not found in feature.properties''))
      else Inl ''Unexpected arguments'')"
| "demo_rules f ctx [] =
     (if f = ''zoom'' then Inr (NumberValue (zoom ctx)) else Inl ''Unexpected arguments'')"
| "demo_rules f ctx vs = Inl ''Unexpected arguments''"

definition demo_classification :: Classification where
  "demo_classification =
     \<lparr>zoomVariable = ''zoom'', zoomOperators = [''zoom''], featureAccessors = [''get'']\<rparr>"

definition demo_Modules :: "(Input, CompilationContext, Rules) Modules" where
  "demo_Modules = spec_Modules demo_classification demo_rules ''''"

definition demo_context :: RuntimeContext where
  "demo_context =
     \<lparr>zoom = Fin 5, featureProperty = map_of [(''height'', NumberValue (Fin 12))],
      geometryType = ''Point'', featureState = Map.empty\<rparr>"

text \<open>Three overloads of one operator, the last two variadic, and a call's arguments.\<close>

definition demo_overloads :: "Signature list" where
  "demo_overloads =
     [\<lparr>paramTypes = [NumberType, NumberType], variadicTail = None, returnType = NumberType\<rparr>,
      \<lparr>paramTypes = [StringType], variadicTail = Some StringType, returnType = StringType\<rparr>,
      \<lparr>paramTypes = [], variadicTail = Some ValueType, returnType = ValueType\<rparr>]"

definition demo_expression :: Expression where
  "demo_expression =
     BindingNode NumberType [] ''zoom''
       (CallNode NumberType [Index 2] ''zoom'' [])
       (CallNode NumberType [Index 3] ''+''
          [VariableReferenceNode NumberType [Index 3, Index 1] ''zoom'',
           CallNode ValueType [Index 3, Index 2] ''get''
             [LiteralNode StringType [Index 3, Index 2, Index 1] (StringValue ''height'')]])"

text \<open>A reference to the zoom variable, free and under a binding of the same name, and a
  feature without properties.\<close>

definition demo_zoom_reference :: Expression where
  "demo_zoom_reference = VariableReferenceNode NumberType [Index 3] ''zoom''"

definition demo_shadowed :: Expression where
  "demo_shadowed =
     BindingNode NumberType [] ''zoom''
       (LiteralNode NumberType [Index 2] (NumberValue (Fin 1)))
       demo_zoom_reference"

definition demo_context_without_height :: RuntimeContext where
  "demo_context_without_height = demo_context\<lparr>featureProperty := Map.empty\<rparr>"

definition demo_unknown :: Input where
  "demo_unknown = FormInput ''unknownOp'' [ScalarInput (NumberScalar (Fin 1))]"

definition demo_literal :: Input where
  "demo_literal = ScalarInput (NumberScalar (Fin 1))"

text \<open>The inputs of the specification's scenarios A, B and C.\<close>

definition scenario_A :: Input where
  "scenario_A =
     FormInput ''+'' [ScalarInput (NumberScalar (Fin 1)), ScalarInput (NumberScalar (Fin 2))]"

definition scenario_B :: Input where
  "scenario_B = FormInput ''get'' [ScalarInput (StringScalar ''height'')]"

definition scenario_C :: Input where
  "scenario_C = FormInput ''zoom'' []"


section \<open>Properties of the worker source\<close>










section \<open>Properties of the icon quads\<close>

lemma demo_getIconQuads:
  "getIconQuads () demo_icon demo_layer False None () () =
    [\<lparr>tl = \<lparr>point_x = Fin (- 8.5), point_y = Fin (- 4.5)\<rparr>,
      tr = \<lparr>point_x = Fin 8.5, point_y = Fin (- 4.5)\<rparr>,
      bl = \<lparr>point_x = Fin (- 8.5), point_y = Fin 4.5\<rparr>,
      br = \<lparr>point_x = Fin 8.5, point_y = Fin 4.5\<rparr>,
      tex = \<lparr>rect_x = Fin 9, rect_y = Fin 19, rect_w = Fin 18, rect_h = Fin 10\<rparr>,
      writingMode = None, glyphOffset = (Fin 0, Fin 0)\<rparr>]"
  by (simp add: getIconQuads_def demo_icon_def demo_layer_def Let_def minus_number_def
      Math_PI_def)

text \<open>
  Claim C9. Whatever the anchor, the shaped icon, the layer, the text-fit mode, the shaped text
  and the rotation, \<^verbatim>\<open>getIconQuads\<close> returns an array of exactly one quad, and the quad's
  texture rectangle is the icon's texture rectangle moved by one to the left and to the top and
  enlarged by two in width and in height.
\<close>

theorem getIconQuads_one_padded_quad:
  "\<exists>q. getIconQuads anchor shapedIcon layer alongLine shapedText globalProperties feature = [q]
      \<and> tex q = \<lparr>rect_x = rect_x (textureRect (image shapedIcon)) - Fin 1,
                  rect_y = rect_y (textureRect (image shapedIcon)) - Fin 1,
                  rect_w = rect_w (textureRect (image shapedIcon)) + Fin 2,
                  rect_h = rect_h (textureRect (image shapedIcon)) + Fin 2\<rparr>"
  by (simp add: getIconQuads_def Let_def split: prod.splits)

theorem getIconQuads_one_padded_quad_witness:
  "length (getIconQuads () demo_icon demo_layer False None () ()) = 1
   \<and> tex (hd (getIconQuads () demo_icon demo_layer False None () ())) =
       \<lparr>rect_x = Fin 9, rect_y = Fin 19, rect_w = Fin 18, rect_h = Fin 10\<rparr>"
  using getIconQuads_one_padded_quad [of "()" demo_icon demo_layer False None "()" "()"]
  by (auto simp: demo_icon_def minus_number_def)

section \<open>Properties of the facade\<close>

lemma compileExpression_failure:
  assumes "parseExpression M expr (new_ParsingContext defs [] expected) = (None, c)"
  shows "fst (compileExpression M defs expr expected) =
           (if errors c \<noteq> [] then Inr [(''result'', Str ''error''), (''errors'', Errors (errors c))]
            else Inl AssertionError)"
  using assms by (simp add: compileExpression_def Let_def)

lemma compileExpression_success:
  assumes "parseExpression M expr (new_ParsingContext defs [] expected) = (Some p, c)"
  shows "fst (compileExpression M defs expr expected) =
           Inr [(''result'', Str ''success''),
                (''function'', Function (fst (compileToFunction M (new_CompilationContext M) p
                                                (evaluationContext M)))),
                (''functionSource'', Str (getPrelude M (snd (compileToFunction M
                                                (new_CompilationContext M) p (evaluationContext M))))),
                (''isFeatureConstant'', Bool (isFeatureConstant M p)),
                (''isZoomConstant'', Bool (isZoomConstant M p)),
                (''expression'', Expr p)]"
  using assms by (simp add: compileExpression_def Let_def split: prod.splits)

lemma compileExpression_registry:
  "snd (compileExpression M defs expr expected) =
     definitions (snd (parseExpression M expr (new_ParsingContext defs [] expected)))"
  by (simp add: compileExpression_def Let_def split: prod.splits option.splits)

lemma isCompileErrors_error:
  "isCompileErrors [(''result'', Str ''error''), (''errors'', Errors es)]"
  by (simp add: isCompileErrors_def field_def)

lemma isCompiledExpression_success:
  "isCompiledExpression [(''result'', Str ''success''), (''function'', Function f),
     (''functionSource'', Str s), (''isFeatureConstant'', Bool a), (''isZoomConstant'', Bool b),
     (''expression'', Expr p)]"
  by (simp add: isCompiledExpression_def field_def)

lemma variants_exclusive: "\<not> (isCompileErrors obj \<and> isCompiledExpression obj)"
  by (auto simp: isCompileErrors_def isCompiledExpression_def)

lemma isCompileErrors_fields:
  "isCompileErrors obj \<Longrightarrow> hasField obj k = (k = ''result'' \<or> k = ''errors'')"
  by (auto simp: isCompileErrors_def hasField_def)

lemma isCompiledExpression_fields:
  "isCompiledExpression obj \<Longrightarrow>
     hasField obj k = (k \<in> {''result'', ''function'', ''functionSource'', ''isFeatureConstant'',
                              ''isZoomConstant'', ''expression''})"
  by (auto simp: isCompiledExpression_def hasField_def)

text \<open>
  Claim C1. Whatever the imported modules do, for every input and expected type
  \<^verbatim>\<open>compileExpression\<close> throws only when the parser returned no expression and recorded no
  error, and every object it returns is exactly one of the two variants: a
  \<^verbatim>\<open>CompileErrors\<close>, which has none of the fields of a success, or a
  \<^verbatim>\<open>CompiledExpression\<close>, which has no field \<^verbatim>\<open>errors\<close>.
\<close>

theorem compileExpression_one_variant:
  "(fst (compileExpression M defs expr expected) = Inl AssertionError) =
     (fst (parseExpression M expr (new_ParsingContext defs [] expected)) = None
      \<and> errors (snd (parseExpression M expr (new_ParsingContext defs [] expected))) = [])
   \<and> (\<forall>obj. fst (compileExpression M defs expr expected) = Inr obj \<longrightarrow>
         (isCompileErrors obj \<or> isCompiledExpression obj)
       \<and> \<not> (isCompileErrors obj \<and> isCompiledExpression obj)
       \<and> (isCompileErrors obj \<longrightarrow>
            \<not> hasField obj ''function'' \<and> \<not> hasField obj ''functionSource''
          \<and> \<not> hasField obj ''isFeatureConstant'' \<and> \<not> hasField obj ''isZoomConstant''
          \<and> \<not> hasField obj ''expression'')
       \<and> (isCompiledExpression obj \<longrightarrow> \<not> hasField obj ''errors''))"
proof (cases "parseExpression M expr (new_ParsingContext defs [] expected)")
  case (Pair parsed c)
  show ?thesis
  proof (cases parsed)
    case None
    with Pair have r: "fst (compileExpression M defs expr expected) =
           (if errors c \<noteq> [] then Inr [(''result'', Str ''error''), (''errors'', Errors (errors c))]
            else Inl AssertionError)"
      by (simp add: compileExpression_failure)
    show ?thesis
      using Pair None r isCompileErrors_error [of "errors c"] variants_exclusive
      by (auto simp: isCompileErrors_fields isCompiledExpression_fields)
  next
    case (Some p)
    with Pair have r: "\<exists>f s a b. fst (compileExpression M defs expr expected) =
       Inr [(''result'', Str ''success''), (''function'', Function f),
     (''functionSource'', Str s), (''isFeatureConstant'', Bool a), (''isZoomConstant'', Bool b),
     (''expression'', Expr p)]"
      by (simp add: compileExpression_success)
    show ?thesis
      using Pair Some r isCompiledExpression_success variants_exclusive
      by (auto simp: isCompileErrors_fields isCompiledExpression_fields)
  qed
qed

text \<open>
  Claim C2, amended. Whatever the imported modules do, a success of \<^verbatim>\<open>compileExpression\<close>
  is the object with the six keys \<^verbatim>\<open>result\<close>, \<^verbatim>\<open>function\<close>, \<^verbatim>\<open>functionSource\<close>,
  \<^verbatim>\<open>isFeatureConstant\<close>, \<^verbatim>\<open>isZoomConstant\<close> and \<^verbatim>\<open>expression\<close>: the tag, the
  compiled evaluator, the prelude of the compilation context, the two classifications of the
  parsed expression, and the parsed expression itself. It has no field \<^verbatim>\<open>type\<close>; the
  resolved type is reached through the expression.
\<close>

theorem compileExpression_success_fields:
  assumes "fst (compileExpression M defs expr expected) = Inr obj"
    and "isCompiledExpression obj"
  shows "\<exists>p c. parseExpression M expr (new_ParsingContext defs [] expected) = (Some p, c)
    \<and> obj = [(''result'', Str ''success''),
             (''function'', Function (fst (compileToFunction M (new_CompilationContext M) p
                                             (evaluationContext M)))),
             (''functionSource'', Str (getPrelude M (snd (compileToFunction M
                                             (new_CompilationContext M) p (evaluationContext M))))),
             (''isFeatureConstant'', Bool (isFeatureConstant M p)),
             (''isZoomConstant'', Bool (isZoomConstant M p)),
             (''expression'', Expr p)]
    \<and> \<not> hasField obj ''type''"
proof (cases "parseExpression M expr (new_ParsingContext defs [] expected)")
  case (Pair parsed c)
  show ?thesis
  proof (cases parsed)
    case None
    with Pair assms(1) have "obj = [(''result'', Str ''error''), (''errors'', Errors (errors c))]"
      by (simp add: compileExpression_failure split: if_splits)
    with assms(2) isCompileErrors_error variants_exclusive show ?thesis by blast
  next
    case (Some p)
    with Pair assms(1) compileExpression_success [of M expr defs expected p c]
    show ?thesis by (auto simp: hasField_def)
  qed
qed


section \<open>The facade over the specified modules\<close>

lemma spec_parseExpression_eq:
  "spec_parseExpression input (new_ParsingContext defs [] expected) =
     (if snd (parse defs [] [] expected input []) = []
      then Some (fst (parse defs [] [] expected input [])) else None,
      (new_ParsingContext defs [] expected)\<lparr>errors := snd (parse defs [] [] expected input [])\<rparr>)"
  by (simp add: spec_parseExpression_def new_ParsingContext_def split: prod.splits)

lemma spec_Modules_simps:
  "parseExpression (spec_Modules C R payload) = spec_parseExpression"
  "new_CompilationContext (spec_Modules C R payload) = \<lparr>prelude = payload\<rparr>"
  "evaluationContext (spec_Modules C R payload) = R"
  "compileToFunction (spec_Modules C R payload) = spec_compileToFunction"
  "getPrelude (spec_Modules C R payload) = prelude"
  "isFeatureConstant (spec_Modules C R payload) = spec_isFeatureConstant C"
  "isZoomConstant (spec_Modules C R payload) = spec_isZoomConstant C"
  by (simp_all add: spec_Modules_def)

lemma spec_compile_failure:
  assumes "snd (parse defs [] [] expected input []) \<noteq> []"
  shows "fst (compileExpression (spec_Modules C R payload) defs input expected) =
     Inr [(''result'', Str ''error''),
          (''errors'', Errors (snd (parse defs [] [] expected input [])))]"
  using assms
  by (simp add: compileExpression_failure [where c = "(new_ParsingContext defs [] expected)\<lparr>errors := snd (parse defs [] [] expected input [])\<rparr>"]
      spec_Modules_simps spec_parseExpression_eq)

lemma spec_compile_success:
  assumes "snd (parse defs [] [] expected input []) = []"
  shows "fst (compileExpression (spec_Modules C R payload) defs input expected) =
     Inr [(''result'', Str ''success''),
          (''function'', Function (evaluate R [] (fst (parse defs [] [] expected input [])))),
          (''functionSource'', Str payload),
          (''isFeatureConstant'',
             Bool (spec_isFeatureConstant C (fst (parse defs [] [] expected input [])))),
          (''isZoomConstant'',
             Bool (spec_isZoomConstant C (fst (parse defs [] [] expected input [])))),
          (''expression'', Expr (fst (parse defs [] [] expected input [])))]"
  using assms
  by (simp add: compileExpression_success [where p = "fst (parse defs [] [] expected input [])" and c = "(new_ParsingContext defs [] expected)\<lparr>errors := snd (parse defs [] [] expected input [])\<rparr>"]
      spec_Modules_simps spec_parseExpression_eq spec_compileToFunction_def)

lemma spec_parseExpression_registry:
  "definitions (snd (spec_parseExpression input context)) = definitions context"
  by (simp add: spec_parseExpression_def split: prod.splits)

lemma parse_literal:
  assumes "literalValue input = Some v"
  shows "parse defs sc loc None input errs = (LiteralNode (typeOf v) loc v, errs)"
  using assms by (cases input) (simp_all add: checkExpected_def)

text \<open>
  Claim C6. With the modules of the specification, the compilation of a literal expression (a
  JSON scalar or the escape form around a value) with no expected type succeeds, both flags
  are true, and the evaluator returns the literal's value on every runtime context.
\<close>

theorem compile_literal:
  assumes "literalValue input = Some v"
  shows "\<exists>f. fst (compileExpression (spec_Modules C R payload) defs input None) =
            Inr [(''result'', Str ''success''),
                 (''function'', Function f),
                 (''functionSource'', Str payload),
                 (''isFeatureConstant'', Bool True),
                 (''isZoomConstant'', Bool True),
                 (''expression'', Expr (LiteralNode (typeOf v) [] v))]
          \<and> (\<forall>ctx. f ctx = Inr v)"
proof -
  have p: "parse defs [] [] None input [] = (LiteralNode (typeOf v) [] v, [])"
    using assms by (rule parse_literal)
  then have "snd (parse defs [] [] None input []) = []" by simp
  from spec_compile_success [OF this, of C R payload] p show ?thesis
    by (simp add: spec_isFeatureConstant_def spec_isZoomConstant_def)
qed

text \<open>Against an expected type, a literal compiles when its type is compatible with it, and
  otherwise the result is the one type error the parser records.\<close>

lemma compile_literal_expected:
  assumes "literalValue input = Some v"
  shows "fst (compileExpression (spec_Modules C R payload) defs input (Some t)) =
     (if isCompatible (typeOf v) t
      then Inr [(''result'', Str ''success''),
                (''function'', Function (evaluate R [] (LiteralNode (typeOf v) [] v))),
                (''functionSource'', Str payload),
                (''isFeatureConstant'', Bool True),
                (''isZoomConstant'', Bool True),
                (''expression'', Expr (LiteralNode (typeOf v) [] v))]
      else Inr [(''result'', Str ''error''),
                (''errors'', Errors [ParsingError (TypeMismatch t (typeOf v)) []])])"
proof -
  have p: "parse defs [] [] (Some t) input [] =
      (LiteralNode (typeOf v) [] v,
       if isCompatible (typeOf v) t then []
       else [ParsingError (TypeMismatch t (typeOf v)) []])"
    using assms by (cases input) (simp_all add: checkExpected_def)
  show ?thesis
  proof (cases "isCompatible (typeOf v) t")
    case True
    with p have "snd (parse defs [] [] (Some t) input []) = []" by simp
    from spec_compile_success [OF this, of C R payload] p True show ?thesis
      by (simp add: spec_isFeatureConstant_def spec_isZoomConstant_def)
  next
    case False
    with p have "snd (parse defs [] [] (Some t) input []) \<noteq> []" by simp
    from spec_compile_failure [OF this, of C R payload] p False show ?thesis by simp
  qed
qed

subsection \<open>The facade on the small catalogue\<close>

lemma demo_parse_literal:
  "parse demo_registry [] [] None demo_literal [] =
     (LiteralNode NumberType [] (NumberValue (Fin 1)), [])"
  by (simp add: demo_literal_def checkExpected_def)

lemma demo_compile_literal:
  "fst (compileExpression demo_Modules demo_registry demo_literal None) =
     Inr [(''result'', Str ''success''),
          (''function'', Function (evaluate demo_rules []
                                     (LiteralNode NumberType [] (NumberValue (Fin 1))))),
          (''functionSource'', Str ''''),
          (''isFeatureConstant'', Bool True),
          (''isZoomConstant'', Bool True),
          (''expression'', Expr (LiteralNode NumberType [] (NumberValue (Fin 1))))]"
proof -
  have "snd (parse demo_registry [] [] None demo_literal []) = []"
    by (simp add: demo_parse_literal)
  from spec_compile_success [OF this, of demo_classification demo_rules "''''"]
  show ?thesis
    by (simp add: demo_parse_literal demo_Modules_def spec_isFeatureConstant_def
        spec_isZoomConstant_def)
qed

lemma demo_parse_unknown:
  "parse demo_registry [] [] None demo_unknown [] =
     (PoisonNode [], [ParsingError (UnknownOperator ''unknownOp'') [Index 0]])"
  by (simp add: demo_unknown_def demo_registry_def lookupDefinition_def checkExpected_def)

lemma demo_compile_unknown:
  "fst (compileExpression demo_Modules demo_registry demo_unknown None) =
     Inr [(''result'', Str ''error''),
          (''errors'', Errors [ParsingError (UnknownOperator ''unknownOp'') [Index 0]])]"
proof -
  have "snd (parse demo_registry [] [] None demo_unknown []) \<noteq> []"
    by (simp add: demo_parse_unknown)
  from spec_compile_failure [OF this, of demo_classification demo_rules "''''"]
  show ?thesis by (simp add: demo_parse_unknown demo_Modules_def)
qed

theorem compileExpression_one_variant_witness:
  "isCompiledExpression (projr (fst (compileExpression demo_Modules demo_registry
                                       demo_literal None)))
   \<and> \<not> hasField (projr (fst (compileExpression demo_Modules demo_registry
                                 demo_literal None))) ''errors''
   \<and> isCompileErrors (projr (fst (compileExpression demo_Modules demo_registry
                                    demo_unknown None)))
   \<and> \<not> hasField (projr (fst (compileExpression demo_Modules demo_registry
                                 demo_unknown None))) ''function''"
proof -
  note s = compileExpression_one_variant [of demo_Modules demo_registry demo_literal None]
  note u = compileExpression_one_variant [of demo_Modules demo_registry demo_unknown None]
  let ?s = "projr (fst (compileExpression demo_Modules demo_registry demo_literal None))"
  let ?u = "projr (fst (compileExpression demo_Modules demo_registry demo_unknown None))"
  have a: "isCompiledExpression ?s"
    by (simp add: demo_compile_literal isCompiledExpression_success)
  have b: "isCompileErrors ?u"
    by (simp add: demo_compile_unknown isCompileErrors_error)
  have rs: "fst (compileExpression demo_Modules demo_registry demo_literal None) = Inr ?s"
    by (simp add: demo_compile_literal)
  have ru: "fst (compileExpression demo_Modules demo_registry demo_unknown None) = Inr ?u"
    by (simp add: demo_compile_unknown)
  from s rs a have c: "\<not> hasField ?s ''errors''" by blast
  from u ru b have d: "\<not> hasField ?u ''function''" by blast
  from a b c d show ?thesis by blast
qed

text \<open>The claim that a success carries a field \<^verbatim>\<open>type\<close> fails on the literal \<^verbatim>\<open>1\<close>.\<close>

theorem compileExpression_type_field_counterexample:
  "isCompiledExpression (projr (fst (compileExpression demo_Modules demo_registry
                                       demo_literal None)))
   \<and> \<not> hasField (projr (fst (compileExpression demo_Modules demo_registry
                                 demo_literal None))) ''type''"
  by (simp add: demo_compile_literal isCompiledExpression_success hasField_def)

theorem compileExpression_success_fields_witness:
  "fst (compileExpression demo_Modules demo_registry demo_literal None)
     = Inr [(''result'', Str ''success''),
          (''function'', Function (evaluate demo_rules []
                                     (LiteralNode NumberType [] (NumberValue (Fin 1))))),
          (''functionSource'', Str ''''),
          (''isFeatureConstant'', Bool True),
          (''isZoomConstant'', Bool True),
          (''expression'', Expr (LiteralNode NumberType [] (NumberValue (Fin 1))))]
   \<and> typeOfNode (LiteralNode NumberType [] (NumberValue (Fin 1))) = NumberType
   \<and> \<not> hasField (projr (fst (compileExpression demo_Modules demo_registry
                                 demo_literal None))) ''type''"
proof -
  from compileExpression_success_fields [OF demo_compile_literal isCompiledExpression_success]
  have "\<not> hasField [(''result'', Str ''success''),
          (''function'', Function (evaluate demo_rules []
                                     (LiteralNode NumberType [] (NumberValue (Fin 1))))),
          (''functionSource'', Str ''''),
          (''isFeatureConstant'', Bool True),
          (''isZoomConstant'', Bool True),
          (''expression'', Expr (LiteralNode NumberType [] (NumberValue (Fin 1))))] ''type''"
    by blast
  then show ?thesis by (simp add: demo_compile_literal)
qed

theorem compile_literal_witness:
  "literalValue demo_literal = Some (NumberValue (Fin 1))
   \<and> isCompiledExpression (projr (fst (compileExpression demo_Modules demo_registry
         demo_literal None)))
   \<and> evaluate demo_rules [] (LiteralNode NumberType [] (NumberValue (Fin 1))) demo_context
       = Inr (NumberValue (Fin 1))"
proof -
  have h: "literalValue demo_literal = Some (NumberValue (Fin 1))"
    by (simp add: demo_literal_def)
  from compile_literal [OF h, of demo_classification demo_rules "''''" demo_registry]
  have "isCompiledExpression (projr (fst (compileExpression demo_Modules demo_registry
         demo_literal None)))"
    by (auto simp: demo_Modules_def isCompiledExpression_success)
  with h show ?thesis by simp
qed

subsection \<open>The facade on the parser handed over as it is specified\<close>





section \<open>Properties of the parser\<close>

text \<open>The parser only appends to the error list, and every poison node it makes comes with an
  error: a parse that records no error yields an expression without poison nodes.\<close>

lemma checkExpected_fst: "fst (checkExpected ex r) = fst r"
  by (cases r) (simp add: checkExpected_def split: option.splits)

lemma checkExpected_extends: "\<exists>new. snd (checkExpected ex r) = snd r @ new"
  by (cases r) (simp add: checkExpected_def split: option.splits)

lemma parse_extends:
  "\<exists>new. snd (parse defs sc loc ex input errs) = errs @ new"
  "\<exists>new. snd (parseArgs defs sc loc i inputs errs) = errs @ new"
proof (induction defs sc loc ex input errs and defs sc loc i inputs errs
       rule: parse_parseArgs.induct)
  case (1 defs sc loc expected s errs)
  then show ?case using checkExpected_extends by (metis parse.simps(1) snd_conv)
next
  case (2 defs sc loc expected v errs)
  then show ?case using checkExpected_extends by (metis parse.simps(2) snd_conv)
next
  case (3 defs sc loc expected n errs)
  obtain new where "snd (parse defs sc loc expected (NameInput n) errs) =
     snd (case map_of sc n of
          Some t \<Rightarrow> (VariableReferenceNode t loc n, errs)
        | None \<Rightarrow> (PoisonNode loc, errs @ [ParsingError (UnboundName n) loc])) @ new"
    using checkExpected_extends by (metis parse.simps(3))
  then show ?case by (auto split: option.splits)
next
  case (4 defs sc loc expected f args errs)
  let ?r = "(case lookupDefinition defs f of
          None \<Rightarrow> (PoisonNode loc, errs @ [ParsingError (UnknownOperator f) (loc @ [Index 0])])
        | Some d \<Rightarrow>
            (case parseArgs defs sc loc 1 args errs of
               (nodes, errs') \<Rightarrow>
                 (case resolveOverload (overloads d)
                         (map (\<lambda>a. (typeOfNode a, locationOfNode a)) nodes) of
                    Inr sg \<Rightarrow> (CallNode (returnType sg) loc f nodes, errs')
                  | Inl NoMatchingArity \<Rightarrow>
                      (PoisonNode loc,
                       errs' @ [ParsingError
                                  (ArityMismatch f (map arityRange (overloads d)) (length nodes))
                                  loc])
                  | Inl (IncompatibleArgument expected' actual l) \<Rightarrow>
                      (PoisonNode loc,
                       errs' @ [ParsingError (TypeMismatch expected' actual) l]))))"
  have "\<exists>new. snd ?r = errs @ new"
  proof (cases "lookupDefinition defs f")
    case None
    then show ?thesis by simp
  next
    case (Some d)
    with 4 obtain new where "snd (parseArgs defs sc loc 1 args errs) = errs @ new" by blast
    with Some show ?thesis
      by (auto split: prod.splits sum.splits ResolutionFailure.splits)
  qed
  moreover obtain new' where "snd (parse defs sc loc expected (FormInput f args) errs) = snd ?r @ new'"
    using checkExpected_extends [of expected ?r] by auto
  ultimately show ?case by auto
next
  case (5 defs sc loc expected n v b errs)
  let ?r = "(case parse defs sc (loc @ [Index 2]) None v errs of
          (valueNode, errs') \<Rightarrow>
            (case parse defs ((n, typeOfNode valueNode) # sc) (loc @ [Index 3]) None b errs' of
               (bodyNode, errs'') \<Rightarrow>
                 (BindingNode (typeOfNode bodyNode) loc n valueNode bodyNode, errs'')))"
  obtain vn errs' where v: "parse defs sc (loc @ [Index 2]) None v errs = (vn, errs')"
    by (cases "parse defs sc (loc @ [Index 2]) None v errs")
  obtain bn errs'' where b:
    "parse defs ((n, typeOfNode vn) # sc) (loc @ [Index 3]) None b errs' = (bn, errs'')"
    by (cases "parse defs ((n, typeOfNode vn) # sc) (loc @ [Index 3]) None b errs'")
  from 5(1) v obtain n1 where n1: "errs' = errs @ n1" by auto
  from 5(2) [OF v [symmetric]] b obtain n2 where n2: "errs'' = errs' @ n2" by auto
  from v b n1 n2 have "snd ?r = errs @ n1 @ n2" by simp
  moreover obtain new' where "snd (parse defs sc loc expected (LetInput n v b) errs) = snd ?r @ new'"
    using checkExpected_extends [of expected ?r] by auto
  ultimately show ?case by auto
next
  case (6 defs sc loc expected errs)
  obtain new where "snd (parse defs sc loc expected OtherInput errs) =
     snd (PoisonNode loc, errs @ [ParsingError ExpectedExpression loc]) @ new"
    using checkExpected_extends by (metis parse.simps(6))
  then show ?case by auto
next
  case (7 defs sc loc i errs)
  then show ?case by simp
next
  case (8 defs sc loc i a as errs)
  obtain node errs' where a: "parse defs sc (loc @ [Index i]) None a errs = (node, errs')"
    by (cases "parse defs sc (loc @ [Index i]) None a errs")
  obtain nodes errs'' where as: "parseArgs defs sc loc (Suc i) as errs' = (nodes, errs'')"
    by (cases "parseArgs defs sc loc (Suc i) as errs'")
  from 8(1) a obtain n1 where n1: "errs' = errs @ n1" by auto
  from 8(2) [OF a [symmetric]] as obtain n2 where n2: "errs'' = errs' @ n2" by auto
  from a as n1 n2 show ?case by simp
qed


lemma checkExpected_grow:
  assumes "snd (checkExpected ex (node, errs @ n1)) = errs"
  shows "n1 = []"
  using assms checkExpected_extends [of ex "(node, errs @ n1)"] by auto

lemma parse_poisonFree:
  "snd (parse defs sc loc ex input errs) = errs \<Longrightarrow>
     poisonFree (fst (parse defs sc loc ex input errs))"
  "snd (parseArgs defs sc loc i inputs errs) = errs \<Longrightarrow>
     list_all poisonFree (fst (parseArgs defs sc loc i inputs errs))"
proof (induction defs sc loc ex input errs and defs sc loc i inputs errs
       rule: parse_parseArgs.induct)
  case (1 defs sc loc expected s errs)
  then show ?case by (simp add: checkExpected_fst)
next
  case (2 defs sc loc expected v errs)
  then show ?case by (simp add: checkExpected_fst)
next
  case (3 defs sc loc expected n errs)
  show ?case
  proof (cases "map_of sc n")
    case None
    with 3 checkExpected_grow [of expected "PoisonNode loc" errs "[ParsingError (UnboundName n) loc]"]
    show ?thesis by simp
  next
    case (Some t)
    then show ?thesis by (simp add: checkExpected_fst)
  qed
next
  case (4 defs sc loc expected f args errs)
  show ?case
  proof (cases "lookupDefinition defs f")
    case None
    with 4(2) checkExpected_grow [of expected "PoisonNode loc" errs
        "[ParsingError (UnknownOperator f) (loc @ [Index 0])]"]
    show ?thesis by simp
  next
    case (Some d)
    obtain nodes errs' where a: "parseArgs defs sc loc 1 args errs = (nodes, errs')"
      by (cases "parseArgs defs sc loc 1 args errs")
    from parse_extends(2) [of defs sc loc 1 args errs] a
    obtain n1 where n1: "errs' = errs @ n1" by auto
    show ?thesis
    proof (cases "resolveOverload (overloads d)
                    (map (\<lambda>a. (typeOfNode a, locationOfNode a)) nodes)")
      case (Inr sg)
      with Some a have p: "parse defs sc loc expected (FormInput f args) errs =
          checkExpected expected (CallNode (returnType sg) loc f nodes, errs')"
        by simp
      with 4(2) n1 have "n1 = []"
        using checkExpected_grow [of expected "CallNode (returnType sg) loc f nodes" errs n1]
        by simp
      with n1 4(1) [OF Some] a have "list_all poisonFree nodes" by simp
      with p show ?thesis by (simp add: checkExpected_fst)
    next
      case (Inl fl)
      show ?thesis
      proof (cases fl)
        case NoMatchingArity
        with Inl Some a have p: "parse defs sc loc expected (FormInput f args) errs =
          checkExpected expected (PoisonNode loc,
             errs' @ [ParsingError (ArityMismatch f (map arityRange (overloads d)) (length nodes))
                        loc])"
          by simp
        with 4(2) n1 checkExpected_grow [of expected "PoisonNode loc" errs
           "n1 @ [ParsingError (ArityMismatch f (map arityRange (overloads d)) (length nodes)) loc]"]
        show ?thesis by simp
      next
        case (IncompatibleArgument expected' actual l)
        with Inl Some a have p: "parse defs sc loc expected (FormInput f args) errs =
          checkExpected expected (PoisonNode loc,
             errs' @ [ParsingError (TypeMismatch expected' actual) l])"
          by simp
        with 4(2) n1 checkExpected_grow [of expected "PoisonNode loc" errs
           "n1 @ [ParsingError (TypeMismatch expected' actual) l]"]
        show ?thesis by simp
      qed
    qed
  qed
next
  case (5 defs sc loc expected n v b errs)
  obtain vn errs' where v: "parse defs sc (loc @ [Index 2]) None v errs = (vn, errs')"
    by (cases "parse defs sc (loc @ [Index 2]) None v errs")
  obtain bn errs'' where b:
    "parse defs ((n, typeOfNode vn) # sc) (loc @ [Index 3]) None b errs' = (bn, errs'')"
    by (cases "parse defs ((n, typeOfNode vn) # sc) (loc @ [Index 3]) None b errs'")
  from parse_extends(1) [of defs sc "loc @ [Index 2]" None v errs] v
  obtain n1 where n1: "errs' = errs @ n1" by auto
  from parse_extends(1) [of defs "(n, typeOfNode vn) # sc" "loc @ [Index 3]" None b errs'] b
  obtain n2 where n2: "errs'' = errs' @ n2" by auto
  from v b have p: "parse defs sc loc expected (LetInput n v b) errs =
      checkExpected expected (BindingNode (typeOfNode bn) loc n vn bn, errs'')"
    by simp
  with 5(3) n1 n2 have "n1 @ n2 = []"
    using checkExpected_grow [of expected "BindingNode (typeOfNode bn) loc n vn bn" errs "n1 @ n2"]
    by simp
  with n1 n2 have e: "errs' = errs" "errs'' = errs'" by simp_all
  from 5(1) v e have pv: "poisonFree vn" by simp
  from 5(2) [OF v [symmetric]] b e have pb: "poisonFree bn" by simp
  from p pv pb show ?case by (simp add: checkExpected_fst)
next
  case (6 defs sc loc expected errs)
  with checkExpected_grow [of expected "PoisonNode loc" errs "[ParsingError ExpectedExpression loc]"]
  show ?case by simp
next
  case (7 defs sc loc i errs)
  then show ?case by simp
next
  case (8 defs sc loc i a as errs)
  obtain node errs' where a: "parse defs sc (loc @ [Index i]) None a errs = (node, errs')"
    by (cases "parse defs sc (loc @ [Index i]) None a errs")
  obtain nodes errs'' where as: "parseArgs defs sc loc (Suc i) as errs' = (nodes, errs'')"
    by (cases "parseArgs defs sc loc (Suc i) as errs'")
  from parse_extends(1) [of defs sc "loc @ [Index i]" None a errs] a
  obtain n1 where n1: "errs' = errs @ n1" by auto
  from parse_extends(2) [of defs sc loc "Suc i" as errs'] as
  obtain n2 where n2: "errs'' = errs' @ n2" by auto
  from 8(3) a as n1 n2 have e: "errs' = errs" "errs'' = errs'" by simp_all
  from 8(1) a e have "poisonFree node" by simp
  moreover from 8(2) [OF a [symmetric]] as e have "list_all poisonFree nodes" by simp
  ultimately show ?case using a as by simp
qed

lemma spec_parseExpression_poisonFree:
  assumes "fst (spec_parseExpression input (new_ParsingContext defs [] expected)) = Some p"
  shows "poisonFree p"
proof -
  from assms have "snd (parse defs [] [] expected input []) = []"
    and "p = fst (parse defs [] [] expected input [])"
    by (simp_all add: spec_parseExpression_eq split: if_splits)
  with parse_poisonFree(1) [of defs "[]" "[]" expected input "[]"] show ?thesis by simp
qed

section \<open>Properties of overload resolution\<close>

lemma expectedTypes_length:
  "arityMatches sg n \<Longrightarrow> length (expectedTypes sg n) = n"
  by (auto simp: arityMatches_def expectedTypes_def split: option.splits)

lemma firstMismatch_None:
  "length es = length args \<Longrightarrow> firstMismatch args es = None \<Longrightarrow>
     list_all2 isCompatible (map fst args) es"
  by (induction args es rule: firstMismatch.induct) (auto split: if_splits)

lemma firstMismatch_Some:
  "firstMismatch args es = Some (e, a, l) \<Longrightarrow>
     \<exists>k<length args. k < length es \<and> args ! k = (a, l) \<and> es ! k = e \<and> \<not> isCompatible a e"
proof (induction args es rule: firstMismatch.induct)
  case (1 actual l' args expected es)
  show ?case
  proof (cases "isCompatible actual expected")
    case True
    with 1 obtain k where "k < length args" "k < length es" "args ! k = (a, l)" "es ! k = e"
      "\<not> isCompatible a e" by auto
    then show ?thesis by (intro exI [of _ "Suc k"]) simp
  next
    case False
    with 1 show ?thesis by (intro exI [of _ 0]) simp
  qed
qed simp_all

lemma resolveOverload_Inr:
  "(resolveOverload sigs args = Inr sg) =
     (\<exists>i<length sigs. sigs ! i = sg \<and> signatureMatches sg (map fst args)
        \<and> (\<forall>j<i. \<not> signatureMatches (sigs ! j) (map fst args)))"
proof (cases "find (\<lambda>sg. signatureMatches sg (map fst args)) sigs")
  case (Some s)
  then have "resolveOverload sigs args = Inr s" by (simp add: resolveOverload_def)
  moreover from Some have "\<exists>i<length sigs. signatureMatches (sigs ! i) (map fst args) \<and> s = sigs ! i
        \<and> (\<forall>j<i. \<not> signatureMatches (sigs ! j) (map fst args))"
    by (simp add: find_Some_iff)
  ultimately show ?thesis
    by (metis Inr_inject linorder_neqE_nat)
next
  case None
  then have nomatch: "\<forall>s\<in>set sigs. \<not> signatureMatches s (map fst args)"
    by (simp add: find_None_iff)
  have "resolveOverload sigs args \<noteq> Inr sg"
  proof (cases "find (\<lambda>sg. arityMatches sg (length args)) sigs")
    case None
    with \<open>find (\<lambda>sg. signatureMatches sg (map fst args)) sigs = None\<close>
    show ?thesis by (simp add: resolveOverload_def)
  next
    case (Some s)
    then have s: "s \<in> set sigs" "arityMatches s (length args)"
      by (auto simp: find_Some_iff)
    have "firstMismatch args (expectedTypes s (length args)) \<noteq> None"
    proof
      assume "firstMismatch args (expectedTypes s (length args)) = None"
      with s(2) have "signatureMatches s (map fst args)"
        by (simp add: signatureMatches_def firstMismatch_None expectedTypes_length)
      with nomatch s(1) show False by blast
    qed
    with Some \<open>find (\<lambda>sg. signatureMatches sg (map fst args)) sigs = None\<close>
    show ?thesis by (auto simp: resolveOverload_def)
  qed
  with nomatch show ?thesis by (metis nth_mem)
qed

lemma signatureMatches_arity:
  "signatureMatches sg (map fst args) \<Longrightarrow> arityMatches sg (length args)"
  by (simp add: signatureMatches_def)

lemma resolveOverload_NoMatchingArity:
  "(resolveOverload sigs args = Inl NoMatchingArity) =
     (\<forall>s\<in>set sigs. \<not> arityMatches s (length args))"
proof (cases "find (\<lambda>sg. arityMatches sg (length args)) sigs")
  case None
  then have a: "\<forall>s\<in>set sigs. \<not> arityMatches s (length args)" by (simp add: find_None_iff)
  then have "\<forall>s\<in>set sigs. \<not> signatureMatches s (map fst args)"
    using signatureMatches_arity by blast
  then have "find (\<lambda>sg. signatureMatches sg (map fst args)) sigs = None"
    by (simp add: find_None_iff)
  with None a show ?thesis by (simp add: resolveOverload_def)
next
  case (Some s)
  then have s: "s \<in> set sigs" "arityMatches s (length args)"
    by (auto simp: find_Some_iff)
  from Some have "resolveOverload sigs args \<noteq> Inl NoMatchingArity"
    by (auto simp: resolveOverload_def split: option.splits)
  with s show ?thesis by blast
qed

lemma resolveOverload_IncompatibleArgument:
  assumes "resolveOverload sigs args = Inl (IncompatibleArgument expected actual l)"
  shows "(\<forall>s\<in>set sigs. \<not> signatureMatches s (map fst args))
       \<and> (\<exists>s\<in>set sigs. arityMatches s (length args)
            \<and> (\<exists>k<length args. args ! k = (actual, l)
                  \<and> expectedTypes s (length args) ! k = expected
                  \<and> \<not> isCompatible actual expected))"
proof -
  from assms have none: "find (\<lambda>sg. signatureMatches sg (map fst args)) sigs = None"
    by (auto simp: resolveOverload_def split: option.splits)
  with assms obtain s where s: "find (\<lambda>sg. arityMatches sg (length args)) sigs = Some s"
    by (auto simp: resolveOverload_def split: option.splits)
  with assms none
  have m: "firstMismatch args (expectedTypes s (length args)) = Some (expected, actual, l)"
    by (auto simp: resolveOverload_def split: option.splits)
  from s have "s \<in> set sigs" "arityMatches s (length args)" by (auto simp: find_Some_iff)
  with firstMismatch_Some [OF m] none show ?thesis
    by (auto simp: find_None_iff)
qed

text \<open>
  Claim C8. Overload resolution, on the types and locations of the parsed arguments, selects
  a signature exactly when it is the first in the declared order that matches the number and
  the types of the arguments (a variadic tail taking the trailing arguments). When no signature
  matches, the failure is the arity failure exactly when no signature matches the number of
  arguments; otherwise it is the type mismatch, which cites, for a signature of matching arity,
  the type it expects of an argument, the argument's actual type, not compatible with it, and
  the argument's location.
\<close>

theorem resolveOverload_first_match:
  "((resolveOverload sigs args = Inr sg) =
      (\<exists>i<length sigs. sigs ! i = sg \<and> signatureMatches sg (map fst args)
         \<and> (\<forall>j<i. \<not> signatureMatches (sigs ! j) (map fst args))))
   \<and> ((resolveOverload sigs args = Inl NoMatchingArity) =
      (\<forall>s\<in>set sigs. \<not> arityMatches s (length args)))
   \<and> (resolveOverload sigs args = Inl (IncompatibleArgument expected actual l) \<longrightarrow>
        (\<forall>s\<in>set sigs. \<not> signatureMatches s (map fst args))
      \<and> (\<exists>s\<in>set sigs. arityMatches s (length args)
            \<and> (\<exists>k<length args. args ! k = (actual, l)
                  \<and> expectedTypes s (length args) ! k = expected
                  \<and> \<not> isCompatible actual expected)))
   \<and> ((\<forall>s\<in>set sigs. \<not> signatureMatches s (map fst args))
        \<and> (\<exists>s\<in>set sigs. arityMatches s (length args)) \<longrightarrow>
       (\<exists>e a l'. resolveOverload sigs args = Inl (IncompatibleArgument e a l')))"
proof -
  have 4: "(\<forall>s\<in>set sigs. \<not> signatureMatches s (map fst args))
        \<and> (\<exists>s\<in>set sigs. arityMatches s (length args)) \<longrightarrow>
       (\<exists>e a l'. resolveOverload sigs args = Inl (IncompatibleArgument e a l'))"
  proof (intro impI, elim conjE)
    assume n: "\<forall>s\<in>set sigs. \<not> signatureMatches s (map fst args)"
      and a: "\<exists>s\<in>set sigs. arityMatches s (length args)"
    from n have "\<forall>s. resolveOverload sigs args \<noteq> Inr s"
      by (auto simp: resolveOverload_Inr)
    moreover from a have "resolveOverload sigs args \<noteq> Inl NoMatchingArity"
      by (simp add: resolveOverload_NoMatchingArity)
    ultimately show "\<exists>e a l'. resolveOverload sigs args = Inl (IncompatibleArgument e a l')"
      by (cases "resolveOverload sigs args") (metis ResolutionFailure.exhaust, blast)
  qed
  from resolveOverload_Inr [of sigs args sg] resolveOverload_NoMatchingArity [of sigs args]
    resolveOverload_IncompatibleArgument [of sigs args expected actual l] 4
  show ?thesis by blast
qed

theorem resolveOverload_first_match_witness:
  "resolveOverload demo_overloads [(StringType, [Index 1]), (NumberType, [Index 2])] =
     Inr (demo_overloads ! 2)
   \<and> \<not> signatureMatches (demo_overloads ! 0) [StringType, NumberType]
   \<and> \<not> signatureMatches (demo_overloads ! 1) [StringType, NumberType]
   \<and> resolveOverload (take 1 demo_overloads) [(StringType, [Index 1])] = Inl NoMatchingArity
   \<and> resolveOverload (take 2 demo_overloads) [(StringType, [Index 1]), (NumberType, [Index 2])] =
       Inl (IncompatibleArgument NumberType StringType [Index 1])"
proof -
  let ?args = "[(StringType, [Index 1]), (NumberType, [Index 2])]"
  have m: "signatureMatches (demo_overloads ! 2) (map fst ?args)"
    "\<not> signatureMatches (demo_overloads ! 0) (map fst ?args)"
    "\<not> signatureMatches (demo_overloads ! 1) (map fst ?args)"
    by (simp_all add: demo_overloads_def signatureMatches_def arityMatches_def
        expectedTypes_def)
  have "\<exists>i<length demo_overloads. demo_overloads ! i = demo_overloads ! 2
      \<and> signatureMatches (demo_overloads ! 2) (map fst ?args)
      \<and> (\<forall>j<i. \<not> signatureMatches (demo_overloads ! j) (map fst ?args))"
  proof (intro exI [of _ 2] conjI allI impI)
    show "2 < length demo_overloads" by (simp add: demo_overloads_def)
    show "signatureMatches (demo_overloads ! 2) (map fst ?args)" by (rule m(1))
    fix j :: nat assume "j < 2"
    then have "j = 0 \<or> j = 1" by auto
    with m(2,3) show "\<not> signatureMatches (demo_overloads ! j) (map fst ?args)" by auto
  qed simp
  with resolveOverload_first_match [of demo_overloads ?args "demo_overloads ! 2"]
  have 1: "resolveOverload demo_overloads ?args = Inr (demo_overloads ! 2)" by blast
  have 2: "resolveOverload (take 1 demo_overloads) [(StringType, [Index 1])] =
      Inl NoMatchingArity"
    by (simp add: demo_overloads_def resolveOverload_def signatureMatches_def arityMatches_def
        expectedTypes_def)
  have 3: "resolveOverload (take 2 demo_overloads) ?args =
      Inl (IncompatibleArgument NumberType StringType [Index 1])"
    by (simp add: demo_overloads_def resolveOverload_def signatureMatches_def arityMatches_def
        expectedTypes_def)
  from 1 2 3 m show ?thesis by simp
qed

section \<open>Properties of the classifier\<close>

lemma constantIn_subtrees:
  "constantIn V F bound e = (\<not> list_ex (refersTo V F) (subtrees bound e))"
  by (induction V F bound e rule: constantIn.induct)
     (auto simp: list_all_iff list_ex_iff)

text \<open>
  Claim C7. For every expression, \<^verbatim>\<open>isZoomConstant\<close> is false exactly when some subtree is
  a reference to the zoom variable that no enclosing binding of the same name shadows, or a call
  of a zoom-dependent operator; and \<^verbatim>\<open>isFeatureConstant\<close> is false exactly when some
  subtree is a call of an accessor of feature properties, geometry type or feature state. Both
  are one structural recursion over the expression, a function of the expression alone.
\<close>

theorem classifiers_characterised:
  "(\<not> spec_isZoomConstant C e) =
      (\<exists>s \<in> set (subtrees [] e).
          refersTo (\<lambda>n. n = zoomVariable C) (\<lambda>f. f \<in> set (zoomOperators C)) s)
   \<and> (\<not> spec_isFeatureConstant C e) =
      (\<exists>s \<in> set (subtrees [] e).
          refersTo (\<lambda>n. False) (\<lambda>f. f \<in> set (featureAccessors C)) s)"
  by (simp add: spec_isZoomConstant_def spec_isFeatureConstant_def constantIn_subtrees
      list_ex_iff)

theorem classifiers_characterised_witness:
  "\<not> spec_isZoomConstant demo_classification demo_expression
   \<and> \<not> spec_isFeatureConstant demo_classification demo_expression
   \<and> \<not> spec_isZoomConstant demo_classification demo_zoom_reference
   \<and> spec_isZoomConstant demo_classification demo_shadowed
   \<and> spec_isFeatureConstant demo_classification demo_shadowed"
proof -
  have z: "([], CallNode NumberType [Index 2] ''zoom'' []) \<in> set (subtrees [] demo_expression)"
    by (simp add: demo_expression_def)
  have zr: "refersTo (\<lambda>n. n = zoomVariable demo_classification)
              (\<lambda>f. f \<in> set (zoomOperators demo_classification))
              ([], CallNode NumberType [Index 2] ''zoom'' [])"
    by (simp add: demo_classification_def)
  from classifiers_characterised [of demo_classification demo_expression] z zr
  have 1: "\<not> spec_isZoomConstant demo_classification demo_expression" by blast
  have 2: "\<not> spec_isFeatureConstant demo_classification demo_expression"
    by (simp add: spec_isFeatureConstant_def demo_classification_def demo_expression_def)
  have 3: "\<not> spec_isZoomConstant demo_classification demo_zoom_reference"
    by (simp add: spec_isZoomConstant_def demo_classification_def demo_zoom_reference_def)
  have 4: "spec_isZoomConstant demo_classification demo_shadowed"
    by (simp add: spec_isZoomConstant_def demo_classification_def demo_shadowed_def
        demo_zoom_reference_def)
  have 5: "spec_isFeatureConstant demo_classification demo_shadowed"
    by (simp add: spec_isFeatureConstant_def demo_classification_def demo_shadowed_def
        demo_zoom_reference_def)
  from 1 2 3 4 5 show ?thesis by simp
qed

section \<open>Properties of the evaluator\<close>

text \<open>An error of the evaluator carries the location of a node of the expression, and the error
  of the first failing argument is the error of the arguments.\<close>

lemma evaluate_error_location:
  "evaluate R env e ctx = Inl er \<Longrightarrow> locationOfError er \<in> set (locations e)"
  "evaluateArgs R env args ctx = Inl er \<Longrightarrow>
     locationOfError er \<in> set (concat (map locations args))"
  by (induction R env e ctx and R env args ctx rule: evaluate_evaluateArgs.induct)
     (auto split: sum.splits option.splits)

lemma evaluateArgs_first_error:
  "k < length args \<Longrightarrow> (\<forall>j<k. \<exists>v. evaluate R env (args ! j) ctx = Inr v) \<Longrightarrow>
   evaluate R env (args ! k) ctx = Inl er \<Longrightarrow> evaluateArgs R env args ctx = Inl er"
proof (induction args arbitrary: k)
  case Nil
  then show ?case by simp
next
  case (Cons a as)
  show ?case
  proof (cases k)
    case 0
    with Cons.prems show ?thesis by simp
  next
    case (Suc k')
    from Cons.prems(2) Suc obtain v where v: "evaluate R env a ctx = Inr v" by fastforce
    from Cons.prems Suc have "evaluateArgs R env as ctx = Inl er"
      by (intro Cons.IH [of k']) auto
    with v show ?thesis by simp
  qed
qed

section \<open>The scenarios of the specification\<close>

text \<open>
  The modules modelled from the specification, over the small catalogue, behave on the inputs
  of the specification's scenarios as it says: A, \<^verbatim>\<open>["+", 1, 2]\<close> against \<^verbatim>\<open>Number\<close>
  compiles to type \<^verbatim>\<open>Number\<close>, both flags true, value 3; B, \<^verbatim>\<open>["get", "height"]\<close> is
  zoom-constant and not feature-constant, evaluates to the property and to an error when the
  property is missing; C, \<^verbatim>\<open>["zoom"]\<close> is feature-constant and not zoom-constant and
  evaluates to the zoom.
\<close>

lemmas demo_parse_simps =
  demo_registry_def lookupDefinition_def checkExpected_def resolveOverload_def
  signatureMatches_def arityMatches_def expectedTypes_def

lemma scenario_A_parse:
  "parse demo_registry [] [] (Some NumberType) scenario_A [] =
     (CallNode NumberType [] ''+''
        [LiteralNode NumberType [Index 1] (NumberValue (Fin 1)),
         LiteralNode NumberType [Index 2] (NumberValue (Fin 2))], [])"
  by (simp add: scenario_A_def demo_parse_simps)

lemma scenario_A:
  "fst (compileExpression demo_Modules demo_registry scenario_A (Some NumberType)) =
     Inr [(''result'', Str ''success''),
          (''function'', Function (evaluate demo_rules [] (fst (parse demo_registry [] []
                                      (Some NumberType) scenario_A [])))),
          (''functionSource'', Str ''''),
          (''isFeatureConstant'', Bool True),
          (''isZoomConstant'', Bool True),
          (''expression'', Expr (fst (parse demo_registry [] [] (Some NumberType) scenario_A [])))]"
  "typeOfNode (fst (parse demo_registry [] [] (Some NumberType) scenario_A [])) = NumberType"
  "evaluate demo_rules [] (fst (parse demo_registry [] [] (Some NumberType) scenario_A [])) ctx
     = Inr (NumberValue (Fin 3))"
proof -
  have "snd (parse demo_registry [] [] (Some NumberType) scenario_A []) = []"
    by (simp add: scenario_A_parse)
  from spec_compile_success [OF this, of demo_classification demo_rules "''''"]
  show "fst (compileExpression demo_Modules demo_registry scenario_A (Some NumberType)) =
     Inr [(''result'', Str ''success''),
          (''function'', Function (evaluate demo_rules [] (fst (parse demo_registry [] []
                                      (Some NumberType) scenario_A [])))),
          (''functionSource'', Str ''''),
          (''isFeatureConstant'', Bool True),
          (''isZoomConstant'', Bool True),
          (''expression'', Expr (fst (parse demo_registry [] [] (Some NumberType) scenario_A [])))]"
    by (simp add: demo_Modules_def scenario_A_parse spec_isFeatureConstant_def
        spec_isZoomConstant_def demo_classification_def)
  show "typeOfNode (fst (parse demo_registry [] [] (Some NumberType) scenario_A [])) = NumberType"
    by (simp add: scenario_A_parse)
  show "evaluate demo_rules [] (fst (parse demo_registry [] [] (Some NumberType) scenario_A [])) ctx
     = Inr (NumberValue (Fin 3))"
    by (simp add: scenario_A_parse)
qed

lemma scenario_B_parse:
  "parse demo_registry [] [] None scenario_B [] =
     (CallNode ValueType [] ''get''
        [LiteralNode StringType [Index 1] (StringValue ''height'')], [])"
  by (simp add: scenario_B_def demo_parse_simps)

lemma scenario_B:
  "fst (compileExpression demo_Modules demo_registry scenario_B None) =
     Inr [(''result'', Str ''success''),
          (''function'', Function (evaluate demo_rules []
                                     (fst (parse demo_registry [] [] None scenario_B [])))),
          (''functionSource'', Str ''''),
          (''isFeatureConstant'', Bool False),
          (''isZoomConstant'', Bool True),
          (''expression'', Expr (fst (parse demo_registry [] [] None scenario_B [])))]"
  "evaluate demo_rules [] (fst (parse demo_registry [] [] None scenario_B [])) demo_context
     = Inr (NumberValue (Fin 12))"
  "evaluate demo_rules [] (fst (parse demo_registry [] [] None scenario_B []))
     demo_context_without_height
     = Inl (EvalError ''Property height not found in feature.properties'' [])"
proof -
  have "snd (parse demo_registry [] [] None scenario_B []) = []"
    by (simp add: scenario_B_parse)
  from spec_compile_success [OF this, of demo_classification demo_rules "''''"]
  show "fst (compileExpression demo_Modules demo_registry scenario_B None) =
     Inr [(''result'', Str ''success''),
          (''function'', Function (evaluate demo_rules []
                                     (fst (parse demo_registry [] [] None scenario_B [])))),
          (''functionSource'', Str ''''),
          (''isFeatureConstant'', Bool False),
          (''isZoomConstant'', Bool True),
          (''expression'', Expr (fst (parse demo_registry [] [] None scenario_B [])))]"
    by (simp add: demo_Modules_def scenario_B_parse spec_isFeatureConstant_def
        spec_isZoomConstant_def demo_classification_def)
  show "evaluate demo_rules [] (fst (parse demo_registry [] [] None scenario_B [])) demo_context
     = Inr (NumberValue (Fin 12))"
    by (simp add: scenario_B_parse demo_context_def)
  show "evaluate demo_rules [] (fst (parse demo_registry [] [] None scenario_B []))
     demo_context_without_height
     = Inl (EvalError ''Property height not found in feature.properties'' [])"
    by (simp add: scenario_B_parse demo_context_without_height_def demo_context_def)
qed

lemma scenario_C_parse:
  "parse demo_registry [] [] None scenario_C [] = (CallNode NumberType [] ''zoom'' [], [])"
  by (simp add: scenario_C_def demo_parse_simps)

lemma scenario_C:
  "fst (compileExpression demo_Modules demo_registry scenario_C None) =
     Inr [(''result'', Str ''success''),
          (''function'', Function (evaluate demo_rules []
                                     (fst (parse demo_registry [] [] None scenario_C [])))),
          (''functionSource'', Str ''''),
          (''isFeatureConstant'', Bool True),
          (''isZoomConstant'', Bool False),
          (''expression'', Expr (fst (parse demo_registry [] [] None scenario_C [])))]"
  "evaluate demo_rules [] (fst (parse demo_registry [] [] None scenario_C [])) demo_context
     = Inr (NumberValue (Fin 5))"
proof -
  have "snd (parse demo_registry [] [] None scenario_C []) = []"
    by (simp add: scenario_C_parse)
  from spec_compile_success [OF this, of demo_classification demo_rules "''''"]
  show "fst (compileExpression demo_Modules demo_registry scenario_C None) =
     Inr [(''result'', Str ''success''),
          (''function'', Function (evaluate demo_rules []
                                     (fst (parse demo_registry [] [] None scenario_C [])))),
          (''functionSource'', Str ''''),
          (''isFeatureConstant'', Bool True),
          (''isZoomConstant'', Bool False),
          (''expression'', Expr (fst (parse demo_registry [] [] None scenario_C [])))]"
    by (simp add: demo_Modules_def scenario_C_parse spec_isFeatureConstant_def
        spec_isZoomConstant_def demo_classification_def)
  show "evaluate demo_rules [] (fst (parse demo_registry [] [] None scenario_C [])) demo_context
     = Inr (NumberValue (Fin 5))"
    by (simp add: scenario_C_parse demo_context_def)
qed

end
